theory Spec2Isabelle
  imports Main "HOL-Library.Word"
begin

section \<open>JavaScript strings\<close>

text \<open>
  A JavaScript string is a sequence of 16-bit code units. The services only use
  \<^verbatim>\<open>trim\<close>, \<^verbatim>\<open>split('\n')\<close>, \<^verbatim>\<open>join('\n')\<close>, \<^verbatim>\<open>startsWith\<close>,
  \<^verbatim>\<open>search(/[=:]/)\<close>, \<^verbatim>\<open>substring\<close> and concatenation, all of which work on code units.
  ASCII literals of the source are written \<open>js ''...''\<close>.
\<close>

type_synonym jschar = "16 word"
type_synonym jsstring = "jschar list"

abbreviation js :: "string \<Rightarrow> jsstring" where
  "js s \<equiv> map of_char s"

text \<open>
  \<^verbatim>\<open>String.prototype.trim\<close> removes the ECMAScript WhiteSpace and LineTerminator code points
  from both ends: TAB, LF, VT, FF, CR, SP, NBSP, U+1680, U+2000..U+200A, U+2028, U+2029,
  U+202F, U+205F, U+3000 and U+FEFF.
\<close>

definition is_ws :: "jschar \<Rightarrow> bool" where
  "is_ws c \<longleftrightarrow>
     c = 0x09 \<or> c = 0x0A \<or> c = 0x0B \<or> c = 0x0C \<or> c = 0x0D \<or> c = 0x20 \<or> c = 0xA0 \<or>
     c = 0x1680 \<or> c = 0x2000 \<or> c = 0x2001 \<or> c = 0x2002 \<or> c = 0x2003 \<or> c = 0x2004 \<or>
     c = 0x2005 \<or> c = 0x2006 \<or> c = 0x2007 \<or> c = 0x2008 \<or> c = 0x2009 \<or> c = 0x200A \<or>
     c = 0x2028 \<or> c = 0x2029 \<or> c = 0x202F \<or> c = 0x205F \<or> c = 0x3000 \<or> c = 0xFEFF"

definition trim :: "jsstring \<Rightarrow> jsstring" where
  "trim s = rev (dropWhile is_ws (rev (dropWhile is_ws s)))"

text \<open>\<^verbatim>\<open>s.split('\n')\<close>: the pieces between the LF code units; never the empty list.\<close>

fun split_nl :: "jsstring \<Rightarrow> jsstring list" where
  "split_nl [] = [[]]"
| "split_nl (c # cs) =
     (if c = 0x0A then [] # split_nl cs
      else (case split_nl cs of [] \<Rightarrow> [[c]] | l # ls \<Rightarrow> (c # l) # ls))"

text \<open>\<^verbatim>\<open>lines.join('\n')\<close>.\<close>

fun join_nl :: "jsstring list \<Rightarrow> jsstring" where
  "join_nl [] = []"
| "join_nl [l] = l"
| "join_nl (l # l' # ls) = l @ 0x0A # join_nl (l' # ls)"

text \<open>\<^verbatim>\<open>s.startsWith(c)\<close> for a one-unit string \<open>c\<close>.\<close>

fun startsWith :: "jsstring \<Rightarrow> jschar \<Rightarrow> bool" where
  "startsWith [] c = False"
| "startsWith (d # ds) c = (d = c)"

text \<open>
  \<^verbatim>\<open>s.search(/[=:]/)\<close>: the index of the first \<^verbatim>\<open>=\<close> (0x3D) or \<^verbatim>\<open>:\<close> (0x3A);
  \<open>None\<close> stands for the result \<^verbatim>\<open>-1\<close>.
\<close>

fun searchSeparator :: "jsstring \<Rightarrow> nat option" where
  "searchSeparator [] = None"
| "searchSeparator (c # cs) =
     (if c = 0x3D \<or> c = 0x3A then Some 0
      else (case searchSeparator cs of None \<Rightarrow> None | Some n \<Rightarrow> Some (Suc n)))"

abbreviation isCommentStart :: "jsstring \<Rightarrow> bool" where
  "isCommentStart l \<equiv> startsWith l 0x23 \<or> startsWith l 0x21"

section \<open>PropertiesFileService.parsePropertiesFileWithDescriptions\<close>

record ParsedProperty =
  key :: jsstring
  "value" :: jsstring
  description :: jsstring
  lineNumber :: nat

text \<open>
  The \<^verbatim>\<open>while\<close> loop that walks \<^verbatim>\<open>commentLineIndex\<close> down over the lines that are
  empty after trimming; it stops at \<open>-1\<close> or at the first non-empty line.
\<close>

function skipEmptyLines :: "jsstring list \<Rightarrow> int \<Rightarrow> int" where
  "skipEmptyLines lines commentLineIndex =
     (if commentLineIndex \<ge> 0 \<and> trim (lines ! nat commentLineIndex) = []
      then skipEmptyLines lines (commentLineIndex - 1)
      else commentLineIndex)"
  by pat_completeness auto
termination
  by (relation "measure (\<lambda>(lines, c). nat (c + 1))") auto

declare skipEmptyLines.simps [simp del]

text \<open>
  The \<^verbatim>\<open>for (j = commentLineIndex + 1; j < i; j++)\<close> loop: is some line strictly between
  the comment and the current line a property line (non-empty, not a comment, with a
  separator)?
\<close>

definition hasPropertyBetween :: "jsstring list \<Rightarrow> nat \<Rightarrow> nat \<Rightarrow> bool" where
  "hasPropertyBetween lines from i =
     list_ex (\<lambda>j. let betweenLine = trim (lines ! j)
                  in betweenLine \<noteq> [] \<and> \<not> isCommentStart betweenLine
                     \<and> searchSeparator betweenLine \<noteq> None)
             [from..<i]"

text \<open>The description looked up for the property on line \<open>i\<close> (0-based).\<close>

definition lookupDescription :: "jsstring list \<Rightarrow> nat \<Rightarrow> jsstring" where
  "lookupDescription lines i =
     (let commentLineIndex = skipEmptyLines lines (int i - 1)
      in if commentLineIndex \<ge> 0 then
           (let commentLine = trim (lines ! nat commentLineIndex)
            in if isCommentStart commentLine then
                 (if \<not> hasPropertyBetween lines (nat (commentLineIndex + 1)) i
                  then trim (drop 1 commentLine) else [])
               else [])
         else [])"

text \<open>One iteration of the outer loop: \<open>None\<close> is a \<^verbatim>\<open>continue\<close> (or a skipped push).\<close>

definition parseLine :: "jsstring list \<Rightarrow> nat \<Rightarrow> ParsedProperty option" where
  "parseLine lines i =
     (let line = trim (lines ! i)
      in if line = [] then None
         else if isCommentStart line then None
         else (case searchSeparator line of
                 None \<Rightarrow> None
               | Some separatorIndex \<Rightarrow>
                   (let k = trim (take separatorIndex line);
                        v = trim (drop (separatorIndex + 1) line)
                    in if k \<noteq> [] then
                         Some \<lparr>key = k, value = v,
                               description = lookupDescription lines i,
                               lineNumber = i + 1\<rparr>
                       else None)))"

definition parsePropertiesFileWithDescriptions :: "jsstring \<Rightarrow> ParsedProperty list" where
  "parsePropertiesFileWithDescriptions content =
     (let lines = split_nl content
      in List.map_filter (parseLine lines) [0..<length lines])"

subsection \<open>The attachment rule in the words of the specification\<close>

definition isCommentLine :: "jsstring \<Rightarrow> bool" where
  "isCommentLine l \<longleftrightarrow> isCommentStart (trim l)"

text \<open>A property line: a non-comment line containing \<^verbatim>\<open>=\<close> or \<^verbatim>\<open>:\<close>.\<close>

definition isPropertyLine :: "jsstring \<Rightarrow> bool" where
  "isPropertyLine l \<longleftrightarrow> \<not> isCommentLine l \<and> searchSeparator l \<noteq> None"

text \<open>The nearest line above line \<open>i\<close> that is not blank, if there is one.\<close>

definition nearestNonBlankBefore :: "jsstring list \<Rightarrow> nat \<Rightarrow> nat option" where
  "nearestNonBlankBefore lines i = List.find (\<lambda>j. trim (lines ! j) \<noteq> []) (rev [0..<i])"

text \<open>
  Following the specification: the description of the property on line \<open>i\<close> is the text of
  the nearest preceding non-blank line when that line is a comment and no property line
  lies between the two; otherwise it is empty.
\<close>

definition attachedDescription :: "jsstring list \<Rightarrow> nat \<Rightarrow> jsstring" where
  "attachedDescription lines i =
     (case nearestNonBlankBefore lines i of
        None \<Rightarrow> []
      | Some c \<Rightarrow>
          if isCommentLine (lines ! c) \<and> \<not> (\<exists>j\<in>{c<..<i}. isPropertyLine (lines ! j))
          then trim (drop 1 (trim (lines ! c))) else [])"

section \<open>Data model: Property and AuditLog\<close>

text \<open>
  A field declared \<^verbatim>\<open>f?: string\<close> is \<^verbatim>\<open>undefined\<close> when never assigned, \<^verbatim>\<open>null\<close> when read
  from a NULL column of the store, or a string. The three are kept apart because the code
  compares them with \<^verbatim>\<open>!==\<close> and tests them for truthiness.
\<close>

datatype jsoptstring = Undefined | Null | Str jsstring

text \<open>\<^verbatim>\<open>x || d\<close> for an optional string \<open>x\<close>: the empty string is falsy too.\<close>

fun orElse :: "jsoptstring \<Rightarrow> jsstring \<Rightarrow> jsstring" where
  "orElse (Str s) d = (if s = [] then d else s)"
| "orElse Undefined d = d"
| "orElse Null d = d"

text \<open>
  A \<^verbatim>\<open>Date\<close> is represented by the text that its \<^verbatim>\<open>toISOString()\<close> returns, which is all
  the code ever reads from one.
\<close>

type_synonym jsdate = jsstring

text \<open>
  \<^verbatim>\<open>interface Property\<close>. The fields carry the prefix \<open>p_\<close>; the audit entry's fields carry
  \<open>a_\<close>, since the two interfaces share the names \<^verbatim>\<open>id\<close>, \<^verbatim>\<open>environment\<close> and \<^verbatim>\<open>component\<close>.
\<close>

record Property =
  p_id :: jsstring
  p_environment :: jsstring
  p_key :: jsstring
  p_value :: jsstring
  p_description :: jsoptstring
  p_component :: jsstring
  p_lastModified :: jsdate
  p_environmentOrder :: "int option"
  p_fileOrder :: "int option"
  p_lineOrder :: "int option"

datatype AuditAction = CREATE | UPDATE | DELETE | RESTORE | BATCH

record AuditLog =
  a_id :: jsstring
  a_timestamp :: jsdate
  a_action :: AuditAction
  a_tableName :: jsstring
  a_recordId :: jsstring
  a_propertyKey :: jsstring
  a_environment :: jsstring
  a_component :: jsstring
  a_oldValue :: jsoptstring
  a_newValue :: jsoptstring
  a_oldDescription :: jsoptstring
  a_newDescription :: jsoptstring
  a_changeDetails :: jsstring
  a_userId :: jsoptstring
  a_sessionId :: jsstring

section \<open>AuditService\<close>

text \<open>
  What \<^verbatim>\<open>AuditService\<close> reads from its surroundings: the identifier that \<^verbatim>\<open>generateId()\<close>
  returns (built from the clock and \<^verbatim>\<open>Math.random\<close>), the current time \<^verbatim>\<open>new Date()\<close>,
  the number \<^verbatim>\<open>Date.now()\<close>, and the static session identifier.
\<close>

record AuditEnv =
  generatedId :: jsstring
  currentTime :: jsdate
  dateNow :: int
  sessionId :: jsstring

text \<open>The name of an action as the template literal \<^verbatim>\<open>${action}\<close> prints it.\<close>

fun actionName :: "AuditAction \<Rightarrow> jsstring" where
  "actionName CREATE = js ''CREATE''"
| "actionName UPDATE = js ''UPDATE''"
| "actionName DELETE = js ''DELETE''"
| "actionName RESTORE = js ''RESTORE''"
| "actionName BATCH = js ''BATCH''"

text \<open>\<^verbatim>\<open>'...'\<close>: a text between two apostrophes (0x27).\<close>

definition quoted :: "jsstring \<Rightarrow> jsstring" where
  "quoted s = [0x27] @ s @ [0x27]"

text \<open>\<^verbatim>\<open>changes.join(', ')\<close>.\<close>

fun joinComma :: "jsstring list \<Rightarrow> jsstring" where
  "joinComma [] = []"
| "joinComma [s] = s"
| "joinComma (s # t # ss) = s @ js '', '' @ joinComma (t # ss)"

text \<open>The arrow of the change texts: space, U+2192, space.\<close>

definition arrow :: jsstring where
  "arrow = [0x20, 0x2192, 0x20]"

definition generateChangeDetails ::
  "AuditAction \<Rightarrow> Property \<Rightarrow> Property option \<Rightarrow> jsstring" where
  "generateChangeDetails action property oldProperty =
     (let envKey = p_environment property @ js ''.'' @ p_key property
      in case action of
           CREATE \<Rightarrow>
             js ''Created property '' @ quoted envKey @ js '' in '' @ p_component property
               @ js '' with value: '' @ quoted (p_value property)
         | UPDATE \<Rightarrow>
             (case oldProperty of
                None \<Rightarrow> js ''Updated property '' @ quoted envKey
              | Some old \<Rightarrow>
                  (let changes =
                        (if p_value old \<noteq> p_value property
                         then [js ''value: '' @ quoted (p_value old) @ arrow
                                 @ quoted (p_value property)] else [])
                      @ (if p_description old \<noteq> p_description property
                         then [js ''description: ''
                                 @ quoted (orElse (p_description old) (js ''(empty)'')) @ arrow
                                 @ quoted (orElse (p_description property) (js ''(empty)''))]
                         else [])
                      @ (if p_component old \<noteq> p_component property
                         then [js ''component: '' @ quoted (p_component old) @ arrow
                                 @ quoted (p_component property)] else [])
                   in js ''Updated property '' @ quoted envKey @ js '': '' @ joinComma changes))
         | DELETE \<Rightarrow>
             js ''Deleted property '' @ quoted envKey @ js '' from '' @ p_component property
               @ js '' (was: '' @ quoted (p_value property) @ js '')''
         | RESTORE \<Rightarrow>
             js ''Restored property '' @ quoted envKey @ js '' to previous state''
         | BATCH \<Rightarrow>
             actionName action @ js '' operation on property '' @ quoted envKey)"

text \<open>
  \<^verbatim>\<open>createAuditLog(action, property, oldProperty?, changeDetails?)\<close>. The entry starts with
  none of the four value fields assigned; exactly one of the three branches, or none,
  assigns them. An empty \<^verbatim>\<open>changeDetails\<close> argument is falsy and gives the generated text.
\<close>

definition createAuditLog ::
  "AuditEnv \<Rightarrow> AuditAction \<Rightarrow> Property \<Rightarrow> Property option \<Rightarrow> jsstring option \<Rightarrow> AuditLog" where
  "createAuditLog env action property oldProperty changeDetails =
     (let auditLog =
            \<lparr>a_id = generatedId env,
             a_timestamp = currentTime env,
             a_action = action,
             a_tableName = js ''properties'',
             a_recordId = p_id property,
             a_propertyKey = p_key property,
             a_environment = p_environment property,
             a_component = p_component property,
             a_oldValue = Undefined,
             a_newValue = Undefined,
             a_oldDescription = Undefined,
             a_newDescription = Undefined,
             a_changeDetails =
               (case changeDetails of
                  Some c \<Rightarrow> if c \<noteq> [] then c
                            else generateChangeDetails action property oldProperty
                | None \<Rightarrow> generateChangeDetails action property oldProperty),
             a_userId = Undefined,
             a_sessionId = sessionId env\<rparr>
      in if action = UPDATE \<and> oldProperty \<noteq> None then
           auditLog\<lparr>a_oldValue := Str (p_value (the oldProperty)),
                    a_newValue := Str (p_value property),
                    a_oldDescription := p_description (the oldProperty),
                    a_newDescription := p_description property\<rparr>
         else if action = CREATE then
           auditLog\<lparr>a_newValue := Str (p_value property),
                    a_newDescription := p_description property\<rparr>
         else if action = DELETE then
           auditLog\<lparr>a_oldValue := Str (p_value property),
                    a_oldDescription := p_description property\<rparr>
         else auditLog)"

section \<open>JavaScript values and JSON\<close>

text \<open>
  The restore of a batch entry works on what \<^verbatim>\<open>JSON.parse\<close> returns, typed \<^verbatim>\<open>any\<close>.
  \<open>jsval\<close> holds the values that can occur there: the JSON values, \<^verbatim>\<open>undefined\<close>, and
  \<^verbatim>\<open>Date\<close> objects.
  A number is kept as the decimal value \<open>m * 10^e\<close> of its literal; rounding to a double is
  not modelled. An object is the list of its own properties.
\<close>

datatype jsval =
    VUndefined
  | VNull
  | VBool bool
  | VNum int int
  | VStr jsstring
  | VDate jsdate
  | VArr "jsval list"
  | VObj "(jsstring \<times> jsval) list"

subsection \<open>Number to string\<close>

text \<open>
  \<^verbatim>\<open>String(n)\<close> for an integer of magnitude below \<open>10^21\<close>: its decimal digits, after a
  minus sign when it is negative. \<open>showPos\<close> is applied to non-negative numbers only.
\<close>

function showPos :: "int \<Rightarrow> jsstring" where
  "showPos n = (if n < 10 then [of_int (48 + n)]
                else showPos (n div 10) @ [of_int (48 + n mod 10)])"
  by pat_completeness auto
termination
  by (relation "measure nat") auto

declare showPos.simps [simp del]

definition showInt :: "int \<Rightarrow> jsstring" where
  "showInt i = (if i < 0 then 0x2D # showPos (- i) else showPos i)"

definition showNat :: "nat \<Rightarrow> jsstring" where
  "showNat n = showPos (int n)"

subsection \<open>JSON.stringify\<close>

definition hexDigit :: "nat \<Rightarrow> jschar" where
  "hexDigit n = (if n < 10 then of_nat (48 + n) else of_nat (87 + n))"

text \<open>\<^verbatim>\<open>\uXXXX\<close> with lower-case hexadecimal digits.\<close>

definition unicodeEscape :: "jschar \<Rightarrow> jsstring" where
  "unicodeEscape c =
     (let n = unat c
      in [0x5C, 0x75, hexDigit (n div 4096), hexDigit (n div 256 mod 16),
          hexDigit (n div 16 mod 16), hexDigit (n mod 16)])"

definition isHighSurrogate :: "jschar \<Rightarrow> bool" where
  "isHighSurrogate c \<longleftrightarrow> 0xD800 \<le> c \<and> c \<le> 0xDBFF"

definition isLowSurrogate :: "jschar \<Rightarrow> bool" where
  "isLowSurrogate c \<longleftrightarrow> 0xDC00 \<le> c \<and> c \<le> 0xDFFF"

text \<open>
  The body of \<^verbatim>\<open>QuoteJSONString\<close>: the two-character escapes, \<^verbatim>\<open>\u00XX\<close> for the other
  control characters, \<^verbatim>\<open>\uDXXX\<close> for a surrogate that is not part of a pair, and every
  other code unit as it is.
\<close>

fun quoteJSONChars :: "jsstring \<Rightarrow> jsstring" where
  "quoteJSONChars [] = []"
| "quoteJSONChars (c # cs) =
     (if c = 0x08 then [0x5C, 0x62] @ quoteJSONChars cs
      else if c = 0x09 then [0x5C, 0x74] @ quoteJSONChars cs
      else if c = 0x0A then [0x5C, 0x6E] @ quoteJSONChars cs
      else if c = 0x0C then [0x5C, 0x66] @ quoteJSONChars cs
      else if c = 0x0D then [0x5C, 0x72] @ quoteJSONChars cs
      else if c = 0x22 then [0x5C, 0x22] @ quoteJSONChars cs
      else if c = 0x5C then [0x5C, 0x5C] @ quoteJSONChars cs
      else if c < 0x20 then unicodeEscape c @ quoteJSONChars cs
      else if isHighSurrogate c then
        (case cs of
           [] \<Rightarrow> unicodeEscape c
         | d # ds \<Rightarrow> if isLowSurrogate d then c # d # quoteJSONChars ds
                     else unicodeEscape c @ quoteJSONChars cs)
      else if isLowSurrogate c then unicodeEscape c @ quoteJSONChars cs
      else c # quoteJSONChars cs)"

definition quoteJSONString :: "jsstring \<Rightarrow> jsstring" where
  "quoteJSONString s = [0x22] @ quoteJSONChars s @ [0x22]"

text \<open>\<^verbatim>\<open>parts.join(',')\<close>.\<close>

fun joinWithComma :: "jsstring list \<Rightarrow> jsstring" where
  "joinWithComma [] = []"
| "joinWithComma [s] = s"
| "joinWithComma (s # t # ss) = s @ 0x2C # joinWithComma (t # ss)"

text \<open>
  \<^verbatim>\<open>JSON.stringify(v)\<close> without indentation, for a value \<open>v\<close> that is not \<^verbatim>\<open>undefined\<close>
  itself. A \<^verbatim>\<open>Date\<close> is written through \<^verbatim>\<open>toJSON\<close> as its ISO text; a property whose value
  is \<^verbatim>\<open>undefined\<close> is left out; an \<^verbatim>\<open>undefined\<close> array element is written \<^verbatim>\<open>null\<close>. The
  numbers written here are integers (\<open>e = 0\<close>), for which JavaScript prints the decimal
  digits; for \<open>e \<noteq> 0\<close> the exponent is appended, which denotes the same number.
\<close>

fun stringify :: "jsval \<Rightarrow> jsstring"
  and stringifyElements :: "jsval list \<Rightarrow> jsstring list"
  and stringifyMembers :: "(jsstring \<times> jsval) list \<Rightarrow> jsstring list" where
  "stringify VUndefined = js ''null''"
| "stringify VNull = js ''null''"
| "stringify (VBool b) = (if b then js ''true'' else js ''false'')"
| "stringify (VNum m e) = showInt m @ (if e = 0 then [] else 0x65 # showInt e)"
| "stringify (VStr s) = quoteJSONString s"
| "stringify (VDate d) = quoteJSONString d"
| "stringify (VArr vs) = [0x5B] @ joinWithComma (stringifyElements vs) @ [0x5D]"
| "stringify (VObj kvs) = [0x7B] @ joinWithComma (stringifyMembers kvs) @ [0x7D]"
| "stringifyElements [] = []"
| "stringifyElements (v # vs) = stringify v # stringifyElements vs"
| "stringifyMembers [] = []"
| "stringifyMembers ((k, v) # kvs) =
     (if v = VUndefined then stringifyMembers kvs
      else (quoteJSONString k @ [0x3A] @ stringify v) # stringifyMembers kvs)"

subsection \<open>JSON.parse\<close>

text \<open>JSON white space: space, LF, CR, TAB.\<close>

definition isJsonWs :: "jschar \<Rightarrow> bool" where
  "isJsonWs c \<longleftrightarrow> c = 0x20 \<or> c = 0x0A \<or> c = 0x0D \<or> c = 0x09"

definition skipWs :: "jsstring \<Rightarrow> jsstring" where
  "skipWs s = dropWhile isJsonWs s"

definition hexValue :: "jschar \<Rightarrow> nat option" where
  "hexValue c =
     (if 0x30 \<le> c \<and> c \<le> 0x39 then Some (unat c - 48)
      else if 0x61 \<le> c \<and> c \<le> 0x66 then Some (unat c - 87)
      else if 0x41 \<le> c \<and> c \<le> 0x46 then Some (unat c - 55)
      else None)"

definition hex4 :: "jschar \<Rightarrow> jschar \<Rightarrow> jschar \<Rightarrow> jschar \<Rightarrow> jschar option" where
  "hex4 a b c d =
     (case (hexValue a, hexValue b, hexValue c, hexValue d) of
        (Some h3, Some h2, Some h1, Some h0) \<Rightarrow>
          Some (of_nat (((h3 * 16 + h2) * 16 + h1) * 16 + h0))
      | _ \<Rightarrow> None)"

definition consChar :: "jschar \<Rightarrow> (jsstring \<times> jsstring) option \<Rightarrow> (jsstring \<times> jsstring) option" where
  "consChar c r = (case r of None \<Rightarrow> None | Some (s, rest) \<Rightarrow> Some (c # s, rest))"

text \<open>
  The characters of a string literal after its opening quote: the decoded string and the
  input after the closing quote. A raw control character, an unknown escape or a missing
  closing quote is a syntax error (\<open>None\<close>).
\<close>

fun scanString :: "jsstring \<Rightarrow> (jsstring \<times> jsstring) option" where
  "scanString [] = None"
| "scanString (c # cs) =
     (if c = 0x22 then Some ([], cs)
      else if c = 0x5C then
        (case cs of
           [] \<Rightarrow> None
         | e # r \<Rightarrow>
             if e = 0x22 then consChar 0x22 (scanString r)
             else if e = 0x5C then consChar 0x5C (scanString r)
             else if e = 0x2F then consChar 0x2F (scanString r)
             else if e = 0x62 then consChar 0x08 (scanString r)
             else if e = 0x66 then consChar 0x0C (scanString r)
             else if e = 0x6E then consChar 0x0A (scanString r)
             else if e = 0x72 then consChar 0x0D (scanString r)
             else if e = 0x74 then consChar 0x09 (scanString r)
             else if e = 0x75 then
               (case r of
                  h3 # h2 # h1 # h0 # r' \<Rightarrow>
                    (case hex4 h3 h2 h1 h0 of
                       None \<Rightarrow> None
                     | Some u \<Rightarrow> consChar u (scanString r'))
                | _ \<Rightarrow> None)
             else None)
      else if c < 0x20 then None
      else consChar c (scanString cs))"

definition isDigit :: "jschar \<Rightarrow> bool" where
  "isDigit c \<longleftrightarrow> 0x30 \<le> c \<and> c \<le> 0x39"

definition digitsValue :: "jsstring \<Rightarrow> int" where
  "digitsValue ds = foldl (\<lambda>a c. 10 * a + (uint c - 48)) 0 ds"

text \<open>
  A number literal is \<^verbatim>\<open>-? int frac? exp?\<close>. The integer part is \<^verbatim>\<open>0\<close> or a digit sequence
  that does not start with \<^verbatim>\<open>0\<close>: its digits and the input after them.
\<close>

definition scanInt :: "jsstring \<Rightarrow> (jsstring \<times> jsstring) option" where
  "scanInt s =
     (if s \<noteq> [] \<and> hd s = 0x30 then Some ([0x30], tl s)
      else if takeWhile isDigit s = [] then None
      else Some (takeWhile isDigit s, dropWhile isDigit s))"

text \<open>The optional fraction \<^verbatim>\<open>. digit+\<close>: its digits (none without a fraction).\<close>

definition scanFrac :: "jsstring \<Rightarrow> (jsstring \<times> jsstring) option" where
  "scanFrac s =
     (if s \<noteq> [] \<and> hd s = 0x2E then
        (if takeWhile isDigit (tl s) = [] then None
         else Some (takeWhile isDigit (tl s), dropWhile isDigit (tl s)))
      else Some ([], s))"

text \<open>The optional exponent \<^verbatim>\<open>[eE] [+-]? digit+\<close>: its value (zero without an exponent).\<close>

definition scanExp :: "jsstring \<Rightarrow> (int \<times> jsstring) option" where
  "scanExp s =
     (if s \<noteq> [] \<and> (hd s = 0x65 \<or> hd s = 0x45) then
        (let s4 = tl s;
             expNegative = (s4 \<noteq> [] \<and> hd s4 = 0x2D);
             s5 = (if s4 \<noteq> [] \<and> (hd s4 = 0x2D \<or> hd s4 = 0x2B) then tl s4 else s4)
         in if takeWhile isDigit s5 = [] then None
            else Some (if expNegative then - digitsValue (takeWhile isDigit s5)
                       else digitsValue (takeWhile isDigit s5),
                       dropWhile isDigit s5))
      else Some (0, s))"

text \<open>A number literal at the head of the input: the number and the input after it.\<close>

definition scanNumber :: "jsstring \<Rightarrow> (jsval \<times> jsstring) option" where
  "scanNumber s =
     (let negative = (s \<noteq> [] \<and> hd s = 0x2D);
          s1 = (if negative then tl s else s)
      in case scanInt s1 of
           None \<Rightarrow> None
         | Some (intDigits, s2) \<Rightarrow>
             (case scanFrac s2 of
                None \<Rightarrow> None
              | Some (fracDigits, s3) \<Rightarrow>
                  (case scanExp s3 of
                     None \<Rightarrow> None
                   | Some (exponent, s6) \<Rightarrow>
                       (let mantissa = digitsValue (intDigits @ fracDigits)
                        in Some (VNum (if negative then - mantissa else mantissa)
                                      (exponent - int (length fracDigits)),
                                 s6)))))"

text \<open>The rest of a literal name (\<^verbatim>\<open>true\<close>, \<^verbatim>\<open>false\<close>, \<^verbatim>\<open>null\<close>) after its first letter.\<close>

definition scanLiteral :: "jsstring \<Rightarrow> jsval \<Rightarrow> jsstring \<Rightarrow> (jsval \<times> jsstring) option" where
  "scanLiteral name v s =
     (if take (length name) s = name then Some (v, drop (length name) s) else None)"

text \<open>
  Setting a key of an insertion-ordered table (an object's own properties, or a
  \<^verbatim>\<open>Map\<close>): a key already present keeps its place and takes the new value; a new key goes
  to the end.
\<close>

fun mapSet :: "('k \<times> 'v) list \<Rightarrow> 'k \<Rightarrow> 'v \<Rightarrow> ('k \<times> 'v) list" where
  "mapSet [] k v = [(k, v)]"
| "mapSet ((k', v') # kvs) k v =
     (if k' = k then (k, v) # kvs else (k', v') # mapSet kvs k v)"

lemma length_skipWs_le: "length (skipWs s) \<le> length s"
  by (simp add: skipWs_def length_dropWhile_le)

lemma skipWs_Cons_length: "skipWs s = c # cs \<Longrightarrow> length cs < length s"
  using length_skipWs_le [of s] by simp

text \<open>
  The recursive-descent parser. Each function returns the value read and the input that
  follows it. \<open>parseElements\<close> and \<open>parseMembers\<close> read the rest of an array or object
  whose opening bracket has been consumed, accumulating what they have read. The tests
  \<open>length r < length s\<close> before a recursive call always succeed, since a value and a
  member take at least one character; they make the recursion visibly well-founded.
\<close>

function parseValue :: "jsstring \<Rightarrow> (jsval \<times> jsstring) option"
  and parseElements :: "jsstring \<Rightarrow> jsval list \<Rightarrow> (jsval \<times> jsstring) option"
  and parseMembers :: "jsstring \<Rightarrow> (jsstring \<times> jsval) list \<Rightarrow> (jsval \<times> jsstring) option" where
  "parseValue s =
     (case skipWs s of
        [] \<Rightarrow> None
      | c # cs \<Rightarrow>
          if c = 0x7B then
            (case skipWs cs of
               [] \<Rightarrow> None
             | d # r \<Rightarrow> if d = 0x7D then Some (VObj [], r) else parseMembers cs [])
          else if c = 0x5B then
            (case skipWs cs of
               [] \<Rightarrow> None
             | d # r \<Rightarrow> if d = 0x5D then Some (VArr [], r) else parseElements cs [])
          else if c = 0x22 then
            (case scanString cs of None \<Rightarrow> None | Some (str, r) \<Rightarrow> Some (VStr str, r))
          else if c = 0x74 then scanLiteral (js ''rue'') (VBool True) cs
          else if c = 0x66 then scanLiteral (js ''alse'') (VBool False) cs
          else if c = 0x6E then scanLiteral (js ''ull'') VNull cs
          else if c = 0x2D \<or> isDigit c then scanNumber (c # cs)
          else None)"
| "parseElements s acc =
     (case parseValue s of
        None \<Rightarrow> None
      | Some (v, r) \<Rightarrow>
          (case skipWs r of
             [] \<Rightarrow> None
           | d # r' \<Rightarrow>
               if d = 0x2C then
                 (if length r' < length s then parseElements r' (acc @ [v]) else None)
               else if d = 0x5D then Some (VArr (acc @ [v]), r')
               else None))"
| "parseMembers s acc =
     (case skipWs s of
        [] \<Rightarrow> None
      | q # r0 \<Rightarrow>
          if q \<noteq> 0x22 then None
          else
            (case scanString r0 of
               None \<Rightarrow> None
             | Some (k, r1) \<Rightarrow>
                 (case skipWs r1 of
                    [] \<Rightarrow> None
                  | colon # r2 \<Rightarrow>
                      if colon \<noteq> 0x3A \<or> \<not> length r2 < length s then None
                      else
                        (case parseValue r2 of
                           None \<Rightarrow> None
                         | Some (v, r3) \<Rightarrow>
                             (case skipWs r3 of
                                [] \<Rightarrow> None
                              | d # r4 \<Rightarrow>
                                  if d = 0x2C then
                                    (if length r4 < length s
                                     then parseMembers r4 (mapSet acc k v) else None)
                                  else if d = 0x7D then Some (VObj (mapSet acc k v), r4)
                                  else None)))))"
  by pat_completeness auto
termination
  by (relation "measure (\<lambda>x. case x of
                    Inl s \<Rightarrow> 2 * length s
                  | Inr (Inl (s, acc)) \<Rightarrow> 2 * length s + 1
                  | Inr (Inr (s, acc)) \<Rightarrow> 2 * length s + 1)")
     (auto dest: skipWs_Cons_length)

declare parseValue.simps [simp del] parseElements.simps [simp del] parseMembers.simps [simp del]

text \<open>\<^verbatim>\<open>JSON.parse(text)\<close>; \<open>None\<close> is the \<^verbatim>\<open>SyntaxError\<close> it throws.\<close>

definition JSON_parse :: "jsstring \<Rightarrow> jsval option" where
  "JSON_parse s =
     (case parseValue s of
        None \<Rightarrow> None
      | Some (v, r) \<Rightarrow> if skipWs r = [] then Some v else None)"

section \<open>AuditService.createBatchOperationAuditLog\<close>

text \<open>
  A \<^verbatim>\<open>Property\<close> object as a JavaScript value. The properties are listed in the order of
  the interface declaration; an absent optional field is a property whose value is
  \<^verbatim>\<open>undefined\<close>, which \<^verbatim>\<open>JSON.stringify\<close> leaves out like a missing one.
\<close>

fun optStringToVal :: "jsoptstring \<Rightarrow> jsval" where
  "optStringToVal Undefined = VUndefined"
| "optStringToVal Null = VNull"
| "optStringToVal (Str s) = VStr s"

fun optNumberToVal :: "int option \<Rightarrow> jsval" where
  "optNumberToVal None = VUndefined"
| "optNumberToVal (Some n) = VNum n 0"

definition propertyToVal :: "Property \<Rightarrow> jsval" where
  "propertyToVal p =
     VObj [(js ''id'', VStr (p_id p)),
           (js ''environment'', VStr (p_environment p)),
           (js ''key'', VStr (p_key p)),
           (js ''value'', VStr (p_value p)),
           (js ''description'', optStringToVal (p_description p)),
           (js ''component'', VStr (p_component p)),
           (js ''lastModified'', VDate (p_lastModified p)),
           (js ''environmentOrder'', optNumberToVal (p_environmentOrder p)),
           (js ''fileOrder'', optNumberToVal (p_fileOrder p)),
           (js ''lineOrder'', optNumberToVal (p_lineOrder p))]"

text \<open>\<^verbatim>\<open>originalProperties?.find(p => p.id === change.id)\<close>.\<close>

definition findOriginal :: "Property list option \<Rightarrow> Property \<Rightarrow> Property option" where
  "findOriginal originalProperties change =
     (case originalProperties of
        None \<Rightarrow> None
      | Some ps \<Rightarrow> List.find (\<lambda>p. p_id p = p_id change) ps)"

text \<open>The object \<^verbatim>\<open>batchData\<close> that is written into \<^verbatim>\<open>newValue\<close>.\<close>

definition batchData :: "Property list \<Rightarrow> Property list \<Rightarrow> Property list option \<Rightarrow> jsval" where
  "batchData changes deletions originalProperties =
     VObj [(js ''changes'',
              VArr (map (\<lambda>change.
                      VObj [(js ''property'', propertyToVal change),
                            (js ''originalProperty'',
                               (case findOriginal originalProperties change of
                                  None \<Rightarrow> VUndefined
                                | Some original \<Rightarrow> propertyToVal original))])
                    changes)),
           (js ''deletions'', VArr (map propertyToVal deletions))]"

definition truthyComment :: "jsstring option \<Rightarrow> bool" where
  "truthyComment c \<longleftrightarrow> (case c of None \<Rightarrow> False | Some s \<Rightarrow> s \<noteq> [])"

definition createBatchOperationAuditLog ::
  "AuditEnv \<Rightarrow> Property list \<Rightarrow> Property list \<Rightarrow> jsstring option \<Rightarrow> Property list option
     \<Rightarrow> AuditLog" where
  "createBatchOperationAuditLog env changes deletions customComment originalProperties =
     (let totalOperations = length changes + length deletions;
          operationCounts =
            (if length changes > 0
             then [showNat (length changes) @ js '' properties updated/added''] else [])
            @ (if length deletions > 0
               then [showNat (length deletions) @ js '' properties deleted''] else []);
          defaultComment = js ''Batch operation: '' @ joinComma operationCounts
      in \<lparr>a_id = generatedId env,
          a_timestamp = currentTime env,
          a_action = BATCH,
          a_tableName = js ''properties'',
          a_recordId = js ''batch_'' @ showInt (dateNow env),
          a_propertyKey = js ''batch_operation_'' @ showNat totalOperations @ js ''_properties'',
          a_environment = js ''multiple'',
          a_component = js ''multiple'',
          a_oldValue = Str (showNat totalOperations @ js '' operations''),
          a_newValue = Str (stringify (batchData changes deletions originalProperties)),
          a_oldDescription = Undefined,
          a_newDescription = Undefined,
          a_changeDetails = (if truthyComment customComment then the customComment
                             else defaultComment),
          a_userId = Undefined,
          a_sessionId = sessionId env\<rparr>)"

section \<open>App.handleBatchSave\<close>







section \<open>AuditPage.handleRestore and App.handleRestore\<close>

datatype jsError = SyntaxError | TypeError

text \<open>
  Truthiness of a value. A number literal denotes zero as a double when its mantissa is
  zero or its magnitude is at most \<open>2^-1075\<close>.
\<close>

definition numberIsZero :: "int \<Rightarrow> int \<Rightarrow> bool" where
  "numberIsZero m e \<longleftrightarrow> m = 0 \<or> (e < 0 \<and> \<bar>m\<bar> * 2 ^ 1075 \<le> 10 ^ nat (- e))"

fun truthy :: "jsval \<Rightarrow> bool" where
  "truthy VUndefined = False"
| "truthy VNull = False"
| "truthy (VBool b) = b"
| "truthy (VNum m e) = (\<not> numberIsZero m e)"
| "truthy (VStr s) = (s \<noteq> [])"
| "truthy (VDate d) = True"
| "truthy (VArr vs) = True"
| "truthy (VObj kvs) = True"

text \<open>
  Reading the property \<open>name\<close> of a value, for the names the restore reads
  (\<^verbatim>\<open>changes\<close>, \<^verbatim>\<open>deletions\<close>, \<^verbatim>\<open>originalProperty\<close>, \<^verbatim>\<open>property\<close>), none of which a
  prototype defines: on \<^verbatim>\<open>null\<close> and \<^verbatim>\<open>undefined\<close> a \<^verbatim>\<open>TypeError\<close>; on an object its own
  property or \<^verbatim>\<open>undefined\<close>; on anything else \<^verbatim>\<open>undefined\<close>.
\<close>

fun getField :: "jsval \<Rightarrow> jsstring \<Rightarrow> jsError + jsval" where
  "getField VUndefined name = Inl TypeError"
| "getField VNull name = Inl TypeError"
| "getField (VObj kvs) name =
     Inr (case map_of kvs name of None \<Rightarrow> VUndefined | Some v \<Rightarrow> v)"
| "getField v name = Inr VUndefined"

text \<open>The own enumerable properties that an object spread \<^verbatim>\<open>{...v}\<close> copies.\<close>

fun ownProperties :: "jsval \<Rightarrow> (jsstring \<times> jsval) list" where
  "ownProperties (VObj kvs) = kvs"
| "ownProperties (VArr vs) = zip (map showNat [0..<length vs]) vs"
| "ownProperties (VStr s) = zip (map showNat [0..<length s]) (map (\<lambda>c. VStr [c]) s)"
| "ownProperties v = []"

text \<open>\<^verbatim>\<open>{...v, lastModified: new Date()}\<close>.\<close>

definition spreadWithLastModified :: "jsval \<Rightarrow> jsdate \<Rightarrow> jsval" where
  "spreadWithLastModified v now = VObj (mapSet (ownProperties v) (js ''lastModified'') (VDate now))"

text \<open>
  \<^verbatim>\<open>batchData.changes.forEach(...)\<close> over the elements of the array: a change with a truthy
  \<^verbatim>\<open>originalProperty\<close> adds the original to the restored list, any other change adds its
  \<^verbatim>\<open>property\<close> to the deleted list.
\<close>

fun reverseChanges ::
  "jsdate \<Rightarrow> jsval list \<Rightarrow> jsval list \<times> jsval list \<Rightarrow> jsError + (jsval list \<times> jsval list)" where
  "reverseChanges now [] acc = Inr acc"
| "reverseChanges now (change # rest) (restoredProperties, deletedProperties) =
     (case getField change (js ''originalProperty'') of
        Inl err \<Rightarrow> Inl err
      | Inr originalProperty \<Rightarrow>
          if truthy originalProperty then
            reverseChanges now rest
              (restoredProperties @ [spreadWithLastModified originalProperty now],
               deletedProperties)
          else
            (case getField change (js ''property'') of
               Inl err \<Rightarrow> Inl err
             | Inr property \<Rightarrow>
                 reverseChanges now rest
                   (restoredProperties, deletedProperties @ [property])))"

text \<open>
  \<^verbatim>\<open>x.forEach(f)\<close> for a truthy \<open>x\<close> read from the payload: only an array has a callable
  \<^verbatim>\<open>forEach\<close>; on any other value the call is a \<^verbatim>\<open>TypeError\<close>.
\<close>

fun arrayElements :: "jsval \<Rightarrow> jsError + jsval list" where
  "arrayElements (VArr vs) = Inr vs"
| "arrayElements v = Inl TypeError"

text \<open>
  The outcome of \<^verbatim>\<open>AuditPage.handleRestore\<close> for the selected entry:
  \<^item> \<open>RestoreFailed\<close>: the inner \<^verbatim>\<open>catch\<close> ran; only \<^verbatim>\<open>setError\<close> is called, no audit entry is
    inserted and \<^verbatim>\<open>onRestore\<close> is not called;
  \<^item> \<open>RestoredBatch subject details restored deleted\<close>: the entry
    \<^verbatim>\<open>createAuditLog('RESTORE', subject, undefined, details)\<close> is inserted and
    \<^verbatim>\<open>onRestore(restored, deleted)\<close> is called, with the dynamically typed values of the
    payload;
  \<^item> \<open>Restored auditLog restored deletions\<close>: \<open>auditLog\<close> is inserted and
    \<^verbatim>\<open>onRestore(restored, deletions)\<close> is called (\<open>None\<close>: the argument is omitted).
\<close>

datatype RestoreOutcome =
    RestoreFailed jsError
  | RestoredBatch jsval jsstring "jsval list" "jsval list"
  | Restored AuditLog "Property list" "Property list option"

definition batchRestorePlaceholder :: "jsdate \<Rightarrow> jsval" where
  "batchRestorePlaceholder now =
     VObj [(js ''id'', VStr (js ''batch_restore'')),
           (js ''key'', VStr (js ''batch_restore'')),
           (js ''environment'', VStr (js ''multiple'')),
           (js ''component'', VStr (js ''multiple'')),
           (js ''value'', VStr []),
           (js ''description'', VStr []),
           (js ''lastModified'', VDate now)]"

text \<open>\<^verbatim>\<open>xs[0]\<close>: \<^verbatim>\<open>undefined\<close> on the empty array.\<close>

fun firstOrUndefined :: "jsval list \<Rightarrow> jsval" where
  "firstOrUndefined [] = VUndefined"
| "firstOrUndefined (v # vs) = v"

text \<open>The branch for \<^verbatim>\<open>action === 'BATCH'\<close>.\<close>

definition handleRestoreBatch :: "jsdate \<Rightarrow> AuditLog \<Rightarrow> RestoreOutcome" where
  "handleRestoreBatch now selectedLog =
     (case JSON_parse (orElse (a_newValue selectedLog) (js ''{}'')) of
        None \<Rightarrow> RestoreFailed SyntaxError
      | Some data \<Rightarrow>
          (case getField data (js ''changes'') of
             Inl err \<Rightarrow> RestoreFailed err
           | Inr changes \<Rightarrow>
               (case (if truthy changes
                      then (case arrayElements changes of
                              Inl err \<Rightarrow> Inl err
                            | Inr cs \<Rightarrow> reverseChanges now cs ([], []))
                      else Inr ([], [])) of
                  Inl err \<Rightarrow> RestoreFailed err
                | Inr (restored1, deletedProperties) \<Rightarrow>
                    (case getField data (js ''deletions'') of
                       Inl err \<Rightarrow> RestoreFailed err
                     | Inr deletions \<Rightarrow>
                         (case (if truthy deletions
                                then (case arrayElements deletions of
                                        Inl err \<Rightarrow> Inl err
                                      | Inr ds \<Rightarrow>
                                          Inr (restored1
                                               @ map (\<lambda>d. spreadWithLastModified d now) ds))
                                else Inr restored1) of
                            Inl err \<Rightarrow> RestoreFailed err
                          | Inr restoredProperties \<Rightarrow>
                              RestoredBatch
                                (if truthy (firstOrUndefined restoredProperties)
                                 then firstOrUndefined restoredProperties
                                 else if truthy (firstOrUndefined deletedProperties)
                                 then firstOrUndefined deletedProperties
                                 else batchRestorePlaceholder now)
                                (js ''Restored batch operation from audit log: ''
                                   @ a_id selectedLog @ js '' (''
                                   @ showNat (length restoredProperties) @ js '' restored, ''
                                   @ showNat (length deletedProperties) @ js '' deleted)'')
                                restoredProperties deletedProperties)))))"

text \<open>The property rebuilt from an audit entry, with the given value and description.\<close>

definition reconstruct :: "AuditLog \<Rightarrow> jsoptstring \<Rightarrow> jsoptstring \<Rightarrow> jsdate \<Rightarrow> Property" where
  "reconstruct selectedLog v d now =
     \<lparr>p_id = a_recordId selectedLog,
      p_environment = a_environment selectedLog,
      p_key = a_propertyKey selectedLog,
      p_value = orElse v [],
      p_description = Str (orElse d []),
      p_component = a_component selectedLog,
      p_lastModified = now,
      p_environmentOrder = None,
      p_fileOrder = None,
      p_lineOrder = None\<rparr>"

text \<open>
  \<^verbatim>\<open>AuditPage.handleRestore\<close> for a selected entry and a connected store. \<open>now\<close> is the
  \<^verbatim>\<open>new Date()\<close> put into the rebuilt properties.
\<close>

definition AuditPage_handleRestore :: "AuditEnv \<Rightarrow> jsdate \<Rightarrow> AuditLog \<Rightarrow> RestoreOutcome" where
  "AuditPage_handleRestore env now selectedLog =
     (if a_action selectedLog = BATCH then handleRestoreBatch now selectedLog
      else if a_action selectedLog = CREATE then
        (let propertyToDelete =
               reconstruct selectedLog (a_newValue selectedLog)
                 (a_newDescription selectedLog) now
         in Restored
              (createAuditLog env DELETE propertyToDelete None
                 (Some (js ''Restored (deleted) property created in audit log: ''
                          @ a_id selectedLog)))
              [] (Some [propertyToDelete]))
      else
        (let restoredProperty =
               reconstruct selectedLog (a_oldValue selectedLog)
                 (a_oldDescription selectedLog) now
         in Restored
              (createAuditLog env RESTORE restoredProperty None
                 (Some (js ''Restored from audit log: '' @ a_id selectedLog)))
              [restoredProperty] None))"






section \<open>Restoring a single entry into the property list\<close>



section \<open>Concrete inputs\<close>

definition exampleEnv :: AuditEnv where
  "exampleEnv = \<lparr>generatedId = js ''audit_1700000000000_k3x'',
                  currentTime = js ''2024-01-02T03:04:05.678Z'',
                  dateNow = 1700000000000,
                  sessionId = js ''session_1700000000000_q7''\<rparr>"

definition exampleNow :: jsdate where
  "exampleNow = js ''2024-01-03T00:00:00.000Z''"

definition exampleProperty :: Property where
  "exampleProperty =
     \<lparr>p_id = js ''prod_db.url'', p_environment = js ''prod'', p_key = js ''db.url'',
      p_value = js ''jdbc:prod2'', p_description = Str (js ''Database URL''),
      p_component = js ''env'', p_lastModified = js ''2024-01-01T00:00:00.000Z'',
      p_environmentOrder = Some 1, p_fileOrder = Some 2, p_lineOrder = Some 3\<rparr>"

definition exampleOldProperty :: Property where
  "exampleOldProperty = exampleProperty\<lparr>p_value := js ''jdbc:prod''\<rparr>"

definition exampleBareProperty :: Property where
  "exampleBareProperty =
     \<lparr>p_id = js ''prod_timeout'', p_environment = js ''prod'', p_key = js ''timeout'',
      p_value = js ''30'', p_description = Undefined,
      p_component = js ''env'', p_lastModified = js ''2024-01-01T00:00:00.000Z'',
      p_environmentOrder = None, p_fileOrder = None, p_lineOrder = None\<rparr>"

section \<open>What JSON.parse returns for a stringified value\<close>

text \<open>
  The value that \<^verbatim>\<open>JSON.parse(JSON.stringify(v))\<close> returns: a \<^verbatim>\<open>Date\<close> has become its ISO
  text, a property with value \<^verbatim>\<open>undefined\<close> is gone, an \<^verbatim>\<open>undefined\<close> array element has
  become \<^verbatim>\<open>null\<close>.
\<close>

fun jsonImage :: "jsval \<Rightarrow> jsval"
  and jsonImageElements :: "jsval list \<Rightarrow> jsval list"
  and jsonImageMembers :: "(jsstring \<times> jsval) list \<Rightarrow> (jsstring \<times> jsval) list" where
  "jsonImage VUndefined = VNull"
| "jsonImage VNull = VNull"
| "jsonImage (VBool b) = VBool b"
| "jsonImage (VNum m e) = VNum m e"
| "jsonImage (VStr s) = VStr s"
| "jsonImage (VDate d) = VStr d"
| "jsonImage (VArr vs) = VArr (jsonImageElements vs)"
| "jsonImage (VObj kvs) = VObj (jsonImageMembers kvs)"
| "jsonImageElements [] = []"
| "jsonImageElements (v # vs) = jsonImage v # jsonImageElements vs"
| "jsonImageMembers [] = []"
| "jsonImageMembers ((k, v) # kvs) =
     (if v = VUndefined then jsonImageMembers kvs else (k, jsonImage v) # jsonImageMembers kvs)"




definition valueStart :: "jschar \<Rightarrow> bool" where
  "valueStart c \<longleftrightarrow>
     c = 0x6E \<or> c = 0x74 \<or> c = 0x66 \<or> c = 0x2D \<or> isDigit c \<or> c = 0x22 \<or> c = 0x5B \<or> c = 0x7B"

section \<open>The payload of a batch entry as the restore reads it\<close>

text \<open>A property as it comes back from the payload, and as the restore re-dates it.\<close>

definition parsedProperty :: "Property \<Rightarrow> jsval" where
  "parsedProperty p = jsonImage (propertyToVal p)"





definition exampleMissingPayloadEntry :: AuditLog where
  "exampleMissingPayloadEntry =
     (createBatchOperationAuditLog exampleEnv [] [] None None)\<lparr>a_newValue := Null\<rparr>"

definition exampleBrokenPayloadEntry :: AuditLog where
  "exampleBrokenPayloadEntry =
     (createBatchOperationAuditLog exampleEnv [] [] None None)
       \<lparr>a_newValue := Str (js ''{changes: oops'')\<rparr>"


section \<open>DuckDBService: the persistent store and snapshot import\<close>

text \<open>
  The store holds the two tables of \<^verbatim>\<open>createTables\<close>. A nullable column is an option; the
  columns declared \<^verbatim>\<open>NOT NULL\<close> or \<^verbatim>\<open>PRIMARY KEY\<close> are not. Every \<^verbatim>\<open>conn.query\<close> is one
  statement that either takes effect as a whole or raises an error and changes nothing;
  the service opens no transaction, so the effects of the statements before a failing one
  stay.
\<close>

record PropertyRow =
  r_id :: jsstring
  r_environment :: jsstring
  r_key :: jsstring
  r_value :: "jsstring option"
  r_description :: "jsstring option"
  r_component :: "jsstring option"
  r_last_modified :: "jsdate option"
  r_environment_order :: "int option"
  r_file_order :: "int option"
  r_line_order :: "int option"

record AuditRow =
  l_id :: jsstring
  l_timestamp :: jsdate
  l_action :: jsstring
  l_table_name :: jsstring
  l_record_id :: jsstring
  l_property_key :: jsstring
  l_environment :: jsstring
  l_component :: jsstring
  l_old_value :: "jsstring option"
  l_new_value :: "jsstring option"
  l_old_description :: "jsstring option"
  l_new_description :: "jsstring option"
  l_change_details :: jsstring
  l_user_id :: "jsstring option"
  l_session_id :: jsstring

record Store =
  connected :: bool
  tbl_properties :: "PropertyRow list"
  tbl_audit_logs :: "AuditRow list"

text \<open>
  A timestamp cell of an imported row, seen through the conversion that the \<^verbatim>\<open>INSERT\<close>
  statement applies to it (\<^verbatim>\<open>strptime\<close> for a combined snapshot, the cast to \<^verbatim>\<open>TIMESTAMP\<close>
  for a legacy one): NULL, a value the conversion accepts, or one on which it raises an
  error.
\<close>

datatype tscell = TsNull | TsValue jsdate | TsInvalid

text \<open>
  A row of the table \<^verbatim>\<open>imported_data\<close> that \<^verbatim>\<open>read_parquet\<close> produced, over the superset of
  the columns of both layouts; \<open>columnNames\<close> lists the columns the file really has, and a
  field whose column the file lacks is never read.
\<close>

record ImportedRow =
  i_table_type :: "jsstring option"
  i_id :: "jsstring option"
  i_environment :: "jsstring option"
  i_key :: "jsstring option"
  i_value :: "jsstring option"
  i_description :: "jsstring option"
  i_component :: "jsstring option"
  i_last_modified :: tscell
  i_environment_order :: "int option"
  i_file_order :: "int option"
  i_line_order :: "int option"
  i_timestamp :: tscell
  i_action :: "jsstring option"
  i_record_id :: "jsstring option"
  i_property_key :: "jsstring option"
  i_old_value :: "jsstring option"
  i_new_value :: "jsstring option"
  i_old_description :: "jsstring option"
  i_new_description :: "jsstring option"
  i_change_details :: "jsstring option"
  i_user_id :: "jsstring option"
  i_session_id :: "jsstring option"

record ImportedData =
  columnNames :: "string list"
  importedRows :: "ImportedRow list"

datatype dbError =
    NotInitialized
  | ReadError
  | BinderError
  | ConversionError
  | ConstraintError

text \<open>
  The \<^verbatim>\<open>CASE WHEN c IS NOT NULL THEN convert(c) ELSE CURRENT_TIMESTAMP END\<close> of the
  \<^verbatim>\<open>INSERT\<close> statements.
\<close>

fun timestampOrNow :: "jsdate \<Rightarrow> tscell \<Rightarrow> dbError + jsdate" where
  "timestampOrNow now TsNull = Inr now"
| "timestampOrNow now (TsValue t) = Inr t"
| "timestampOrNow now TsInvalid = Inl ConversionError"

text \<open>The value for a \<^verbatim>\<open>NOT NULL\<close> column.\<close>

fun notNull :: "'a option \<Rightarrow> dbError + 'a" where
  "notNull None = Inl ConstraintError"
| "notNull (Some x) = Inr x"

text \<open>The \<^verbatim>\<open>SELECT\<close> list of the statements that insert into \<^verbatim>\<open>properties\<close>, for one row.\<close>

definition selectPropertyRow :: "jsdate \<Rightarrow> ImportedRow \<Rightarrow> dbError + PropertyRow" where
  "selectPropertyRow now r =
     (case timestampOrNow now (i_last_modified r) of
        Inl e \<Rightarrow> Inl e
      | Inr modified \<Rightarrow>
          (case (notNull (i_id r), notNull (i_environment r), notNull (i_key r)) of
             (Inr rid, Inr renv, Inr rkey) \<Rightarrow>
               Inr \<lparr>r_id = rid, r_environment = renv, r_key = rkey,
                    r_value = i_value r, r_description = i_description r,
                    r_component = i_component r, r_last_modified = Some modified,
                    r_environment_order = i_environment_order r,
                    r_file_order = i_file_order r, r_line_order = i_line_order r\<rparr>
           | _ \<Rightarrow> Inl ConstraintError))"

text \<open>The \<^verbatim>\<open>SELECT\<close> list of the statement that inserts into \<^verbatim>\<open>audit_logs\<close>, for one row.\<close>

definition selectAuditRow :: "jsdate \<Rightarrow> ImportedRow \<Rightarrow> dbError + AuditRow" where
  "selectAuditRow now r =
     (case timestampOrNow now (i_timestamp r) of
        Inl e \<Rightarrow> Inl e
      | Inr ts \<Rightarrow>
          (case (i_id r, i_action r, i_record_id r, i_property_key r, i_environment r,
                 i_component r, i_change_details r, i_session_id r) of
             (Some lid, Some act, Some recId, Some pkey, Some env, Some component,
              Some details, Some session) \<Rightarrow>
               Inr \<lparr>l_id = lid, l_timestamp = ts, l_action = act,
                    l_table_name = js ''properties'', l_record_id = recId,
                    l_property_key = pkey, l_environment = env, l_component = component,
                    l_old_value = i_old_value r, l_new_value = i_new_value r,
                    l_old_description = i_old_description r,
                    l_new_description = i_new_description r,
                    l_change_details = details, l_user_id = i_user_id r,
                    l_session_id = session\<rparr>
           | _ \<Rightarrow> Inl ConstraintError))"

text \<open>All rows of a \<^verbatim>\<open>SELECT\<close>, or the first error.\<close>

fun selectAll :: "('a \<Rightarrow> dbError + 'b) \<Rightarrow> 'a list \<Rightarrow> dbError + 'b list" where
  "selectAll f [] = Inr []"
| "selectAll f (x # xs) =
     (case f x of
        Inl e \<Rightarrow> Inl e
      | Inr y \<Rightarrow> (case selectAll f xs of Inl e \<Rightarrow> Inl e | Inr ys \<Rightarrow> Inr (y # ys)))"

definition propertyColumns :: "string list" where
  "propertyColumns =
     [''id'', ''environment'', ''key'', ''value'', ''description'', ''component'',
      ''last_modified'', ''environment_order'', ''file_order'', ''line_order'']"

definition auditColumns :: "string list" where
  "auditColumns =
     [''id'', ''timestamp'', ''action'', ''record_id'', ''property_key'', ''environment'',
      ''component'', ''old_value'', ''new_value'', ''old_description'', ''new_description'',
      ''change_details'', ''user_id'', ''session_id'']"

text \<open>
  \<^verbatim>\<open>INSERT INTO properties (...) SELECT ... FROM imported_data [WHERE ...]\<close>: the statement
  fails when it names a column the imported table lacks, when a conversion fails, when a
  \<^verbatim>\<open>NOT NULL\<close> column would receive NULL, or when the primary key would repeat.
\<close>

definition insertPropertiesFrom ::
  "jsdate \<Rightarrow> string list \<Rightarrow> ImportedData \<Rightarrow> ImportedRow list \<Rightarrow> Store \<Rightarrow> dbError + Store" where
  "insertPropertiesFrom now needed imported selected db =
     (if \<not> set needed \<subseteq> set (columnNames imported) then Inl BinderError
      else
        (case selectAll (selectPropertyRow now) selected of
           Inl e \<Rightarrow> Inl e
         | Inr newRows \<Rightarrow>
             if distinct (map r_id (tbl_properties db @ newRows))
             then Inr (db\<lparr>tbl_properties := tbl_properties db @ newRows\<rparr>)
             else Inl ConstraintError))"

definition insertAuditLogsFrom ::
  "jsdate \<Rightarrow> string list \<Rightarrow> ImportedData \<Rightarrow> ImportedRow list \<Rightarrow> Store \<Rightarrow> dbError + Store" where
  "insertAuditLogsFrom now needed imported selected db =
     (if \<not> set needed \<subseteq> set (columnNames imported) then Inl BinderError
      else
        (case selectAll (selectAuditRow now) selected of
           Inl e \<Rightarrow> Inl e
         | Inr newRows \<Rightarrow>
             if distinct (map l_id (tbl_audit_logs db @ newRows))
             then Inr (db\<lparr>tbl_audit_logs := tbl_audit_logs db @ newRows\<rparr>)
             else Inl ConstraintError))"

text \<open>
  The result of a service call: the error it threw, if any, and the store it leaves.
\<close>

type_synonym importResult = "dbError option \<times> Store"

definition importCombinedData :: "jsdate \<Rightarrow> Store \<Rightarrow> ImportedData \<Rightarrow> importResult" where
  "importCombinedData now db imported =
     (if \<not> connected db then (Some NotInitialized, db)
      else
        (let db1 = db\<lparr>tbl_properties := []\<rparr>;
             db2 = db1\<lparr>tbl_audit_logs := []\<rparr>
         in case insertPropertiesFrom now (''table_type'' # propertyColumns) imported
                   (filter (\<lambda>r. i_table_type r = Some (js ''properties''))
                           (importedRows imported)) db2 of
              Inl e \<Rightarrow> (Some e, db2)
            | Inr db3 \<Rightarrow>
                (case insertAuditLogsFrom now (''table_type'' # auditColumns) imported
                        (filter (\<lambda>r. i_table_type r = Some (js ''audit_logs''))
                                (importedRows imported)) db3 of
                   Inl e \<Rightarrow> (Some e, db3)
                 | Inr db4 \<Rightarrow> (None, db4))))"

definition importLegacyProperties :: "jsdate \<Rightarrow> Store \<Rightarrow> ImportedData \<Rightarrow> importResult" where
  "importLegacyProperties now db imported =
     (if \<not> connected db then (Some NotInitialized, db)
      else
        (let db1 = db\<lparr>tbl_properties := []\<rparr>
         in case insertPropertiesFrom now propertyColumns imported (importedRows imported) db1 of
              Inl e \<Rightarrow> (Some e, db1)
            | Inr db2 \<Rightarrow> (None, db2)))"

text \<open>
  \<^verbatim>\<open>importFromParquet(buffer)\<close>. The argument \<open>blob\<close> is what \<^verbatim>\<open>read_parquet\<close> makes of the
  buffer: \<open>None\<close> when it cannot read it as a columnar file, so that the statement creating
  \<^verbatim>\<open>imported_data\<close> fails. The scratch table \<^verbatim>\<open>imported_data\<close> is not part of \<open>Store\<close>. After
  a successful import the function returns the rows of \<^verbatim>\<open>properties\<close>; that list is left
  out here.
\<close>

definition importFromParquet :: "jsdate \<Rightarrow> Store \<Rightarrow> ImportedData option \<Rightarrow> importResult" where
  "importFromParquet now db blob =
     (if \<not> connected db then (Some NotInitialized, db)
      else
        (case blob of
           None \<Rightarrow> (Some ReadError, db)
         | Some imported \<Rightarrow>
             (let hasCombinedFormat = (''table_type'' \<in> set (columnNames imported))
              in if hasCombinedFormat then importCombinedData now db imported
                 else importLegacyProperties now db imported)))"

subsection \<open>Concrete stores and snapshots\<close>

definition blankRow :: ImportedRow where
  "blankRow =
     \<lparr>i_table_type = None, i_id = None, i_environment = None, i_key = None, i_value = None,
      i_description = None, i_component = None, i_last_modified = TsNull,
      i_environment_order = None, i_file_order = None, i_line_order = None,
      i_timestamp = TsNull, i_action = None, i_record_id = None, i_property_key = None,
      i_old_value = None, i_new_value = None, i_old_description = None,
      i_new_description = None, i_change_details = None, i_user_id = None,
      i_session_id = None\<rparr>"

definition examplePropertyRow :: PropertyRow where
  "examplePropertyRow =
     \<lparr>r_id = js ''prod_db.url'', r_environment = js ''prod'', r_key = js ''db.url'',
      r_value = Some (js ''jdbc:prod''), r_description = None, r_component = Some (js ''env''),
      r_last_modified = Some (js ''2024-01-01T00:00:00.000Z''),
      r_environment_order = None, r_file_order = None, r_line_order = None\<rparr>"

definition exampleAuditRow :: AuditRow where
  "exampleAuditRow =
     \<lparr>l_id = js ''audit_1'', l_timestamp = js ''2024-01-01T00:00:00.000Z'',
      l_action = js ''CREATE'', l_table_name = js ''properties'',
      l_record_id = js ''prod_db.url'', l_property_key = js ''db.url'',
      l_environment = js ''prod'', l_component = js ''env'', l_old_value = None,
      l_new_value = Some (js ''jdbc:prod''), l_old_description = None,
      l_new_description = None, l_change_details = js ''Created'', l_user_id = None,
      l_session_id = js ''session_1''\<rparr>"

definition exampleStore :: Store where
  "exampleStore =
     \<lparr>connected = True, tbl_properties = [examplePropertyRow],
      tbl_audit_logs = [exampleAuditRow]\<rparr>"

definition exampleImportedProperty :: ImportedRow where
  "exampleImportedProperty =
     blankRow\<lparr>i_id := Some (js ''st_db.url''), i_environment := Some (js ''st''),
              i_key := Some (js ''db.url''), i_value := Some (js ''jdbc:st'')\<rparr>"

definition exampleImportedAudit :: ImportedRow where
  "exampleImportedAudit =
     blankRow\<lparr>i_id := Some (js ''audit_9''), i_environment := Some (js ''st''),
              i_action := Some (js ''CREATE''), i_record_id := Some (js ''st_db.url''),
              i_property_key := Some (js ''db.url''), i_component := Some (js ''env''),
              i_change_details := Some (js ''Created''),
              i_session_id := Some (js ''session_9'')\<rparr>"



text \<open>A combined snapshot with a property row whose \<^verbatim>\<open>key\<close> is NULL.\<close>

definition exampleInvalidSnapshot :: ImportedData where
  "exampleInvalidSnapshot =
     \<lparr>columnNames = ''table_type'' # propertyColumns @ auditColumns,
      importedRows =
        [exampleImportedProperty\<lparr>i_table_type := Some (js ''properties''), i_key := None\<rparr>,
         exampleImportedAudit\<lparr>i_table_type := Some (js ''audit_logs'')\<rparr>]\<rparr>"

section \<open>DeploymentService.generatePropertiesFileContent\<close>

text \<open>Truthiness of an optional string: absent and empty are falsy.\<close>

definition truthyString :: "jsoptstring \<Rightarrow> bool" where
  "truthyString d \<longleftrightarrow> orElse d [] \<noteq> []"

text \<open>
  The loop over the sorted properties, with the running \<^verbatim>\<open>lastFileOrder\<close>: the lines it
  pushes. A blank line separates two file groups; a truthy description gives a comment
  line; then come the \<^verbatim>\<open>key=value\<close> line and a blank line.
\<close>

fun emitProperties :: "int \<Rightarrow> Property list \<Rightarrow> jsstring list" where
  "emitProperties lastFileOrder [] = []"
| "emitProperties lastFileOrder (property # rest) =
     (let switch = (p_fileOrder property \<noteq> None
                    \<and> the (p_fileOrder property) \<noteq> lastFileOrder)
      in (if switch \<and> lastFileOrder \<noteq> - 1 then [[]] else [])
         @ (if truthyString (p_description property)
            then [js ''# '' @ orElse (p_description property) []] else [])
         @ [p_key property @ js ''='' @ p_value property, []]
         @ emitProperties (if switch then the (p_fileOrder property) else lastFileOrder) rest)"

text \<open>
  \<^verbatim>\<open>generatePropertiesFileContent(properties)\<close>. \<open>now\<close> is the text of
  \<^verbatim>\<open>new Date().toISOString()\<close>. \<open>sortFn\<close> stands for \<^verbatim>\<open>properties.sort(comparator)\<close>: the
  comparator orders by \<^verbatim>\<open>fileOrder\<close> and \<^verbatim>\<open>lineOrder\<close> and falls back to
  \<^verbatim>\<open>localeCompare\<close>, whose order depends on the locale; the theorems only use that sorting
  permutes the list.
\<close>

definition generatePropertiesFileContent ::
  "(Property list \<Rightarrow> Property list) \<Rightarrow> jsdate \<Rightarrow> Property list \<Rightarrow> jsstring" where
  "generatePropertiesFileContent sortFn now properties =
     join_nl ([js ''# Generated on '' @ now, js ''# Environment Properties'', []]
              @ emitProperties (- 1) (sortFn properties))"

subsection \<open>The triples compared by the round trip\<close>

definition propertyTriple :: "Property \<Rightarrow> jsstring \<times> jsstring \<times> jsstring" where
  "propertyTriple p = (p_key p, p_value p, orElse (p_description p) [])"

definition parsedTriple :: "ParsedProperty \<Rightarrow> jsstring \<times> jsstring \<times> jsstring" where
  "parsedTriple e = (key e, value e, description e)"

text \<open>
  A property that the text format can carry: the key is not empty, has no white space at
  its ends, contains no separator and no line feed and does not start a comment; the value
  has no white space at its ends and no line feed; the description, when there is one, has
  no white space at its ends and no line feed.
\<close>

definition representable :: "Property \<Rightarrow> bool" where
  "representable p \<longleftrightarrow>
     p_key p \<noteq> [] \<and> trim (p_key p) = p_key p
     \<and> (\<forall>c \<in> set (p_key p). c \<noteq> 0x3D \<and> c \<noteq> 0x3A \<and> c \<noteq> 0x0A)
     \<and> \<not> isCommentStart (p_key p)
     \<and> trim (p_value p) = p_value p \<and> 0x0A \<notin> set (p_value p)
     \<and> trim (orElse (p_description p) []) = orElse (p_description p) []
     \<and> 0x0A \<notin> set (orElse (p_description p) [])"

text \<open>The first property that is written has a description.\<close>

definition firstDescribed :: "Property list \<Rightarrow> bool" where
  "firstDescribed ps \<longleftrightarrow> (case ps of [] \<Rightarrow> True | p # rest \<Rightarrow> truthyString (p_description p))"

subsection \<open>The parser read line by line\<close>

text \<open>
  The same parser, reading the lines from top to bottom and carrying the lines already
  read, nearest first. These functions are only used to reason about the parser; they are
  proved equal to it.
\<close>

fun descriptionFrom :: "jsstring list \<Rightarrow> jsstring" where
  "descriptionFrom [] = []"
| "descriptionFrom (l # seen) =
     (if trim l = [] then descriptionFrom seen
      else if isCommentStart (trim l) then trim (drop 1 (trim l))
      else [])"

definition tripleOfLine ::
  "jsstring list \<Rightarrow> jsstring \<Rightarrow> (jsstring \<times> jsstring \<times> jsstring) option" where
  "tripleOfLine seen l =
     (let line = trim l
      in if line = [] then None
         else if isCommentStart line then None
         else (case searchSeparator line of
                 None \<Rightarrow> None
               | Some separatorIndex \<Rightarrow>
                   (let k = trim (take separatorIndex line);
                        v = trim (drop (separatorIndex + 1) line)
                    in if k \<noteq> [] then Some (k, v, descriptionFrom seen) else None)))"

fun triplesFrom ::
  "jsstring list \<Rightarrow> jsstring list \<Rightarrow> (jsstring \<times> jsstring \<times> jsstring) list" where
  "triplesFrom seen [] = []"
| "triplesFrom seen (l # below) =
     (case tripleOfLine seen l of
        None \<Rightarrow> triplesFrom (l # seen) below
      | Some t \<Rightarrow> t # triplesFrom (l # seen) below)"

section \<open>Properties of the text parser\<close>


lemma skipEmptyLines_nearest:
  "skipEmptyLines lines (int i - 1) =
     (case nearestNonBlankBefore lines i of None \<Rightarrow> -1 | Some c \<Rightarrow> int c)"
proof (induction i)
  case 0
  show ?case by (simp add: skipEmptyLines.simps nearestNonBlankBefore_def)
next
  case (Suc i)
  have "skipEmptyLines lines (int (Suc i) - 1) =
        (if trim (lines ! i) = [] then skipEmptyLines lines (int i - 1) else int i)"
    by (subst skipEmptyLines.simps) simp
  with Suc show ?case by (simp add: nearestNonBlankBefore_def)
qed

lemma nearest_blank_between:
  "nearestNonBlankBefore lines i = Some c \<Longrightarrow>
     c < i \<and> trim (lines ! c) \<noteq> [] \<and> (\<forall>j. c < j \<and> j < i \<longrightarrow> trim (lines ! j) = [])"
proof (induction i)
  case 0
  then show ?case by (simp add: nearestNonBlankBefore_def)
next
  case (Suc i)
  show ?case
  proof (cases "trim (lines ! i) = []")
    case True
    with Suc.prems have "nearestNonBlankBefore lines i = Some c"
      by (simp add: nearestNonBlankBefore_def)
    from Suc.IH [OF this] True show ?thesis
      by (auto simp: less_Suc_eq)
  next
    case False
    with Suc.prems have "c = i" by (simp add: nearestNonBlankBefore_def)
    with False show ?thesis by auto
  qed
qed


lemma trim_Nil_iff: "trim s = [] \<longleftrightarrow> (\<forall>c\<in>set s. is_ws c)"
proof
  assume "trim s = []"
  then have "dropWhile is_ws (rev (dropWhile is_ws s)) = []" by (simp add: trim_def)
  then have a: "\<forall>c\<in>set (dropWhile is_ws s). is_ws c" by (simp add: dropWhile_eq_Nil_conv)
  have "dropWhile is_ws s = []"
  proof (rule ccontr)
    assume "dropWhile is_ws s \<noteq> []"
    then have "\<not> is_ws (hd (dropWhile is_ws s))" by (rule hd_dropWhile)
    moreover from \<open>dropWhile is_ws s \<noteq> []\<close> have "hd (dropWhile is_ws s) \<in> set (dropWhile is_ws s)"
      by simp
    ultimately show False using a by blast
  qed
  then show "\<forall>c\<in>set s. is_ws c" by (simp add: dropWhile_eq_Nil_conv)
next
  assume "\<forall>c\<in>set s. is_ws c"
  then have d: "dropWhile is_ws s = []" by (simp add: dropWhile_eq_Nil_conv)
  show "trim s = []" unfolding trim_def d by simp
qed

lemma searchSeparator_None_iff: "searchSeparator s = None \<longleftrightarrow> (\<forall>c\<in>set s. c \<noteq> 0x3D \<and> c \<noteq> 0x3A)"
  by (induction s) (auto split: option.splits)

lemma blank_not_property: "trim l = [] \<Longrightarrow> \<not> isPropertyLine l"
  by (auto simp: isPropertyLine_def trim_Nil_iff searchSeparator_None_iff is_ws_def)

lemma hasPropertyBetween_blank:
  "\<forall>j. c < j \<and> j < i \<longrightarrow> trim (lines ! j) = [] \<Longrightarrow> \<not> hasPropertyBetween lines (Suc c) i"
  by (auto simp: hasPropertyBetween_def list_ex_iff)

lemma lookupDescription_attached: "lookupDescription lines i = attachedDescription lines i"
proof (cases "nearestNonBlankBefore lines i")
  case None
  then show ?thesis
    by (simp add: lookupDescription_def attachedDescription_def skipEmptyLines_nearest)
next
  case (Some c)
  note nb = nearest_blank_between [OF Some]
  then have hb: "\<not> hasPropertyBetween lines (Suc c) i"
    by (intro hasPropertyBetween_blank) simp
  have np: "\<not> (\<exists>j\<in>{c<..<i}. isPropertyLine (lines ! j))"
    using nb by (auto dest: blank_not_property)
  have suc: "nat (int c + 1) = Suc c" by simp
  show ?thesis
    unfolding lookupDescription_def attachedDescription_def skipEmptyLines_nearest Some
    using hb np by (simp add: isCommentLine_def suc Let_def)
qed

lemma parseLine_Some:
  "parseLine lines i = Some e \<Longrightarrow>
     key e \<noteq> [] \<and> lineNumber e = i + 1 \<and> description e = lookupDescription lines i"
  by (auto simp: parseLine_def Let_def split: if_splits option.splits)

lemma set_map_filter: "set (List.map_filter f xs) = {y. \<exists>x\<in>set xs. f x = Some y}"
  by (induction xs) (auto split: option.splits)

lemma in_parse:
  "e \<in> set (parsePropertiesFileWithDescriptions content) \<longleftrightarrow>
     (\<exists>i < length (split_nl content). parseLine (split_nl content) i = Some e)"
  by (auto simp: parsePropertiesFileWithDescriptions_def Let_def set_map_filter)

lemma parseLine_empty_key:
  "searchSeparator (trim (lines ! i)) = Some 0 \<or> searchSeparator (trim (lines ! i)) = None
     \<Longrightarrow> parseLine lines i = None"
  by (auto simp: parseLine_def Let_def trim_def)


text \<open>
  Claim C10. Every entry returned by the parser has a non-empty key, and a line whose first
  separator sits at position 0 after trimming (an empty key, as in \<^verbatim>\<open>=value\<close>) produces
  no entry: the loop iteration for that line pushes nothing, and no returned entry carries
  that line's number.
\<close>

theorem parse_keys_nonempty:
  "(\<forall>e \<in> set (parsePropertiesFileWithDescriptions content). key e \<noteq> [])
   \<and> (\<forall>i < length (split_nl content).
        searchSeparator (trim (split_nl content ! i)) = Some 0
        \<longrightarrow> parseLine (split_nl content) i = None
            \<and> (\<forall>e \<in> set (parsePropertiesFileWithDescriptions content). lineNumber e \<noteq> i + 1))"
proof (intro conjI ballI allI impI)
  fix e assume "e \<in> set (parsePropertiesFileWithDescriptions content)"
  then show "key e \<noteq> []" by (auto simp: in_parse dest: parseLine_Some)
next
  fix i assume "searchSeparator (trim (split_nl content ! i)) = Some 0"
  then show "parseLine (split_nl content) i = None" by (simp add: parseLine_empty_key)
next
  fix i e
  assume sep: "searchSeparator (trim (split_nl content ! i)) = Some 0"
    and e: "e \<in> set (parsePropertiesFileWithDescriptions content)"
  from e obtain i' where i': "parseLine (split_nl content) i' = Some e"
    by (auto simp: in_parse)
  show "lineNumber e \<noteq> i + 1"
  proof
    assume "lineNumber e = i + 1"
    with parseLine_Some [OF i'] have "i' = i" by simp
    with i' sep show False by (simp add: parseLine_empty_key)
  qed
qed



theorem parse_keys_nonempty_witness:
  "\<lparr>key = js ''k'', value = js ''v'', description = [], lineNumber = 2\<rparr>
     \<in> set (parsePropertiesFileWithDescriptions (js ''=value'' @ [0x0A] @ js ''k=v''))
   \<and> searchSeparator (trim (split_nl (js ''=value'' @ [0x0A] @ js ''k=v'') ! 0)) = Some 0
   \<and> parseLine (split_nl (js ''=value'' @ [0x0A] @ js ''k=v'')) 0 = None
   \<and> length (parsePropertiesFileWithDescriptions (js ''=value'' @ [0x0A] @ js ''k=v'')) = 1"
proof -
  let ?c = "js ''=value'' @ [0x0A] @ js ''k=v''"
  have p: "parsePropertiesFileWithDescriptions ?c
             = [\<lparr>key = js ''k'', value = js ''v'', description = [], lineNumber = 2\<rparr>]"
    by code_simp
  have len: "0 < length (split_nl ?c)" by code_simp
  have sep: "searchSeparator (trim (split_nl ?c ! 0)) = Some 0" by code_simp
  from parse_keys_nonempty [of ?c] len sep have "parseLine (split_nl ?c) 0 = None" by blast
  with p sep show ?thesis by simp
qed

section \<open>Properties of the audit log engine\<close>

lemma createAuditLog_CREATE:
  "a_newValue (createAuditLog env CREATE p old cd) = Str (p_value p)
   \<and> a_newDescription (createAuditLog env CREATE p old cd) = p_description p
   \<and> a_oldValue (createAuditLog env CREATE p old cd) = Undefined
   \<and> a_oldDescription (createAuditLog env CREATE p old cd) = Undefined"
  by (simp add: createAuditLog_def)

lemma createAuditLog_DELETE:
  "a_oldValue (createAuditLog env DELETE p old cd) = Str (p_value p)
   \<and> a_oldDescription (createAuditLog env DELETE p old cd) = p_description p
   \<and> a_newValue (createAuditLog env DELETE p old cd) = Undefined
   \<and> a_newDescription (createAuditLog env DELETE p old cd) = Undefined"
  by (simp add: createAuditLog_def)

lemma createAuditLog_UPDATE_Some:
  "a_oldValue (createAuditLog env UPDATE p (Some q) cd) = Str (p_value q)
   \<and> a_oldDescription (createAuditLog env UPDATE p (Some q) cd) = p_description q
   \<and> a_newValue (createAuditLog env UPDATE p (Some q) cd) = Str (p_value p)
   \<and> a_newDescription (createAuditLog env UPDATE p (Some q) cd) = p_description p"
  by (simp add: createAuditLog_def)

lemma createAuditLog_unset:
  "(action = UPDATE \<and> old = None) \<or> action = RESTORE \<or> action = BATCH \<Longrightarrow>
   a_oldValue (createAuditLog env action p old cd) = Undefined
   \<and> a_oldDescription (createAuditLog env action p old cd) = Undefined
   \<and> a_newValue (createAuditLog env action p old cd) = Undefined
   \<and> a_newDescription (createAuditLog env action p old cd) = Undefined"
  by (auto simp: createAuditLog_def)


text \<open>
  Claim C8, as amended. \<^verbatim>\<open>createAuditLog\<close> fills the four value fields by action:
  \<^verbatim>\<open>CREATE\<close> sets \<^verbatim>\<open>newValue\<close>/\<^verbatim>\<open>newDescription\<close> from the property and leaves the old
  fields unset; \<^verbatim>\<open>DELETE\<close> sets \<^verbatim>\<open>oldValue\<close>/\<^verbatim>\<open>oldDescription\<close> from the property and
  leaves the new fields unset; \<^verbatim>\<open>UPDATE\<close> with an old property sets all four, the old ones
  from the old property and the new ones from the property; \<^verbatim>\<open>UPDATE\<close> without an old
  property, and \<^verbatim>\<open>RESTORE\<close> with or without one, leave all four unset.
\<close>

theorem createAuditLog_value_fields:
  "(a_newValue (createAuditLog env CREATE p old cd) = Str (p_value p)
    \<and> a_newDescription (createAuditLog env CREATE p old cd) = p_description p
    \<and> a_oldValue (createAuditLog env CREATE p old cd) = Undefined
    \<and> a_oldDescription (createAuditLog env CREATE p old cd) = Undefined)
   \<and> (a_oldValue (createAuditLog env DELETE p old cd) = Str (p_value p)
    \<and> a_oldDescription (createAuditLog env DELETE p old cd) = p_description p
    \<and> a_newValue (createAuditLog env DELETE p old cd) = Undefined
    \<and> a_newDescription (createAuditLog env DELETE p old cd) = Undefined)
   \<and> (a_oldValue (createAuditLog env UPDATE p (Some q) cd) = Str (p_value q)
    \<and> a_oldDescription (createAuditLog env UPDATE p (Some q) cd) = p_description q
    \<and> a_newValue (createAuditLog env UPDATE p (Some q) cd) = Str (p_value p)
    \<and> a_newDescription (createAuditLog env UPDATE p (Some q) cd) = p_description p)
   \<and> (a_oldValue (createAuditLog env UPDATE p None cd) = Undefined
    \<and> a_oldDescription (createAuditLog env UPDATE p None cd) = Undefined
    \<and> a_newValue (createAuditLog env UPDATE p None cd) = Undefined
    \<and> a_newDescription (createAuditLog env UPDATE p None cd) = Undefined)
   \<and> (a_oldValue (createAuditLog env RESTORE p old cd) = Undefined
    \<and> a_oldDescription (createAuditLog env RESTORE p old cd) = Undefined
    \<and> a_newValue (createAuditLog env RESTORE p old cd) = Undefined
    \<and> a_newDescription (createAuditLog env RESTORE p old cd) = Undefined)"
  using createAuditLog_CREATE [of env p old cd] createAuditLog_DELETE [of env p old cd]
    createAuditLog_UPDATE_Some [of env p q cd]
    createAuditLog_unset [of UPDATE None env p cd]
    createAuditLog_unset [of RESTORE old env p cd]
  by simp

text \<open>
  The claim as stated fails: an \<^verbatim>\<open>UPDATE\<close> entry created without an old property has no
  \<^verbatim>\<open>newValue\<close>, and a \<^verbatim>\<open>RESTORE\<close> entry does not carry the values that an \<^verbatim>\<open>UPDATE\<close> entry
  for the same two properties carries.
\<close>

theorem createAuditLog_claim_counterexample:
  "a_newValue (createAuditLog exampleEnv UPDATE exampleProperty None None)
     \<noteq> Str (p_value exampleProperty)
   \<and> a_newValue (createAuditLog exampleEnv RESTORE exampleProperty (Some exampleOldProperty) None)
     \<noteq> a_newValue (createAuditLog exampleEnv UPDATE exampleProperty (Some exampleOldProperty) None)
   \<and> a_oldValue (createAuditLog exampleEnv RESTORE exampleProperty (Some exampleOldProperty) None)
     \<noteq> a_oldValue (createAuditLog exampleEnv UPDATE exampleProperty (Some exampleOldProperty) None)"
  by (simp add: createAuditLog_def)


lemma createBatchOperationAuditLog_action:
  "a_action (createBatchOperationAuditLog env changes deletions c orig) = BATCH"
  by (simp add: createBatchOperationAuditLog_def Let_def)



section \<open>Properties of the restore resolver\<close>












text \<open>
  Claim C4, as amended. When the \<^verbatim>\<open>newValue\<close> of a \<^verbatim>\<open>BATCH\<close> entry is a non-empty text that
  \<^verbatim>\<open>JSON.parse\<close> rejects, the restore only reports the error: no audit entry is inserted
  and the restore handler of the application is not called, so no property is upserted or
  deleted.
\<close>

theorem batch_restore_unparseable_payload:
  "a_action entry = BATCH \<Longrightarrow> a_newValue entry = Str payload \<Longrightarrow> payload \<noteq> [] \<Longrightarrow>
   JSON_parse payload = None \<Longrightarrow>
   AuditPage_handleRestore env now entry = RestoreFailed SyntaxError"
  by (simp add: AuditPage_handleRestore_def handleRestoreBatch_def)


theorem batch_restore_unparseable_payload_witness:
  "a_action exampleBrokenPayloadEntry = BATCH
   \<and> a_newValue exampleBrokenPayloadEntry = Str (js ''{changes: oops'')
   \<and> JSON_parse (js ''{changes: oops'') = None
   \<and> AuditPage_handleRestore exampleEnv exampleNow exampleBrokenPayloadEntry
       = RestoreFailed SyntaxError"
proof -
  have a: "a_action exampleBrokenPayloadEntry = BATCH"
    by (simp add: exampleBrokenPayloadEntry_def createBatchOperationAuditLog_action)
  have v: "a_newValue exampleBrokenPayloadEntry = Str (js ''{changes: oops'')"
    by (simp add: exampleBrokenPayloadEntry_def)
  have n: "js ''{changes: oops'' \<noteq> []" by simp
  have p: "JSON_parse (js ''{changes: oops'') = None" by code_simp
  from batch_restore_unparseable_payload [OF a v n p, of exampleEnv exampleNow] a v p
  show ?thesis by simp
qed

lemma JSON_parse_empty_object: "JSON_parse (js ''{}'') = Some (VObj [])"
  by code_simp

lemma showNat_0: "showNat 0 = js ''0''"
  by (simp add: showNat_def showPos.simps)

text \<open>
  The claim as stated fails for a missing payload: \<^verbatim>\<open>newValue || '{}'\<close> turns it into the
  empty object, so the restore reports no error, inserts a \<^verbatim>\<open>RESTORE\<close> audit entry for the
  placeholder property and calls the restore handler with two empty lists.
\<close>

theorem batch_restore_missing_payload_counterexample:
  "a_action exampleMissingPayloadEntry = BATCH
   \<and> a_newValue exampleMissingPayloadEntry = Null
   \<and> AuditPage_handleRestore exampleEnv exampleNow exampleMissingPayloadEntry
       = RestoredBatch (batchRestorePlaceholder exampleNow)
           (js ''Restored batch operation from audit log: '' @ a_id exampleMissingPayloadEntry
              @ js '' (0 restored, 0 deleted)'')
           [] []"
proof -
  have a: "a_action exampleMissingPayloadEntry = BATCH"
    by (simp add: exampleMissingPayloadEntry_def createBatchOperationAuditLog_action)
  have v: "a_newValue exampleMissingPayloadEntry = Null"
    by (simp add: exampleMissingPayloadEntry_def)
  have t: "\<not> truthy (batchRestorePlaceholder exampleNow) \<Longrightarrow> False"
    by (simp add: batchRestorePlaceholder_def)
  have "handleRestoreBatch exampleNow exampleMissingPayloadEntry
       = RestoredBatch (batchRestorePlaceholder exampleNow)
           (js ''Restored batch operation from audit log: '' @ a_id exampleMissingPayloadEntry
              @ js '' (0 restored, 0 deleted)'')
           [] []"
    unfolding handleRestoreBatch_def v
    by (simp add: JSON_parse_empty_object [simplified] showNat_0 [simplified])
  with a v show ?thesis by (simp add: AuditPage_handleRestore_def)
qed


section \<open>JSON.parse after JSON.stringify\<close>

subsection \<open>Digits\<close>

lemma digit_char:
  "0 \<le> n \<Longrightarrow> n < 10 \<Longrightarrow>
     isDigit (of_int (48 + n) :: jschar) \<and> uint (of_int (48 + n) :: jschar) = 48 + n
     \<and> ((of_int (48 + n) :: jschar) = 0x30 \<longleftrightarrow> n = 0)
     \<and> (of_int (48 + n) :: jschar) \<noteq> 0x2D"
proof -
  assume "0 \<le> n" "n < 10"
  then have "n \<in> {0, 1, 2, 3, 4, 5, 6, 7, 8, 9}" by (simp only: insert_iff empty_iff) arith
  then show ?thesis by (auto simp: isDigit_def)
qed

lemma showPos_digits: "0 \<le> n \<Longrightarrow> showPos n \<noteq> [] \<and> (\<forall>c \<in> set (showPos n). isDigit c)"
proof (induction n rule: showPos.induct)
  case (1 n)
  show ?case
  proof (cases "n < 10")
    case True
    with 1(2) digit_char [of n] show ?thesis by (simp add: showPos.simps [of n])
  next
    case False
    with 1 have IH: "showPos (n div 10) \<noteq> [] \<and> (\<forall>c \<in> set (showPos (n div 10)). isDigit c)"
      by simp
    have "0 \<le> n mod 10" "n mod 10 < 10" by simp_all
    with digit_char [of "n mod 10"] IH False show ?thesis
      by (simp add: showPos.simps [of n])
  qed
qed












subsection \<open>Strings\<close>











subsection \<open>Values\<close>



lemma valueStart_facts:
  "valueStart c \<Longrightarrow> \<not> isJsonWs c \<and> c \<noteq> 0x5D \<and> c \<noteq> 0x7D \<and> c \<noteq> 0x2C"
  by (auto simp: valueStart_def isJsonWs_def isDigit_def)

lemma hd_showInt: "showInt m \<noteq> [] \<and> (hd (showInt m) = 0x2D \<or> isDigit (hd (showInt m)))"
proof (cases "m < 0")
  case True
  then show ?thesis by (simp add: showInt_def)
next
  case False
  then have "0 \<le> m" by simp
  from showPos_digits [OF this] False show ?thesis
    by (cases "showPos m") (auto simp: showInt_def)
qed

lemma stringify_start: "stringify v \<noteq> [] \<and> valueStart (hd (stringify v))"
proof (cases v)
  case (VNum m e)
  with hd_showInt [of m] show ?thesis by (auto simp: valueStart_def hd_append)
qed (auto simp: valueStart_def quoteJSONString_def)

lemma skipWs_start: "s \<noteq> [] \<Longrightarrow> \<not> isJsonWs (hd s) \<Longrightarrow> skipWs s = s"
  by (cases s) (auto simp: skipWs_def)

lemma skipWs_stringify: "skipWs (stringify v @ rest) = stringify v @ rest"
  using stringify_start [of v] valueStart_facts [of "hd (stringify v)"]
  by (intro skipWs_start) (auto simp: hd_append)



















lemma jsonImageElements_eq_map: "jsonImageElements vs = map jsonImage vs"
  by (induction vs) auto

lemma stringifyElements_Nil_iff: "stringifyElements vs = [] \<longleftrightarrow> vs = []"
  by (cases vs) auto




section \<open>Properties of the batch restore\<close>



lemma parsedProperty_not_undefined: "parsedProperty p \<noteq> VUndefined"
  by (simp add: parsedProperty_def propertyToVal_def)























section \<open>Properties of the snapshot import\<close>

lemma insertPropertiesFrom_audit:
  "insertPropertiesFrom now needed imported selected db = Inr db'
     \<Longrightarrow> tbl_audit_logs db' = tbl_audit_logs db \<and> connected db' = connected db"
  by (auto simp: insertPropertiesFrom_def split: if_splits sum.splits)

lemma insertPropertiesFrom_rows:
  "insertPropertiesFrom now needed imported selected db = Inr db' \<Longrightarrow> tbl_properties db = []
     \<Longrightarrow> selectAll (selectPropertyRow now) selected = Inr (tbl_properties db')"
  by (auto simp: insertPropertiesFrom_def split: if_splits sum.splits)


lemma importLegacyProperties_audit:
  "tbl_audit_logs (snd (importLegacyProperties now db imported)) = tbl_audit_logs db"
  by (auto simp: importLegacyProperties_def Let_def split: sum.splits
      dest: insertPropertiesFrom_audit)


lemma importLegacyProperties_failed:
  "connected db \<Longrightarrow> fst (importLegacyProperties now db imported) \<noteq> None \<Longrightarrow>
   tbl_properties (snd (importLegacyProperties now db imported)) = []"
  by (auto simp: importLegacyProperties_def Let_def split: sum.splits if_splits)


lemma importCombinedData_failed:
  assumes "connected db" "fst (importCombinedData now db imported) \<noteq> None"
  shows "tbl_audit_logs (snd (importCombinedData now db imported)) = []
       \<and> (tbl_properties (snd (importCombinedData now db imported)) = []
          \<or> selectAll (selectPropertyRow now)
               (filter (\<lambda>r. i_table_type r = Some (js ''properties'')) (importedRows imported))
             = Inr (tbl_properties (snd (importCombinedData now db imported))))"
proof -
  let ?db2 = "db\<lparr>tbl_properties := [], tbl_audit_logs := []\<rparr>"
  let ?ps = "filter (\<lambda>r. i_table_type r = Some (js ''properties'')) (importedRows imported)"
  let ?as = "filter (\<lambda>r. i_table_type r = Some (js ''audit_logs'')) (importedRows imported)"
  show ?thesis
  proof (cases "insertPropertiesFrom now (''table_type'' # propertyColumns) imported ?ps ?db2")
    case (Inl e)
    with assms(1) show ?thesis by (simp add: importCombinedData_def Let_def)
  next
    case (Inr db3)
    from insertPropertiesFrom_rows [OF Inr] have p3: "selectAll (selectPropertyRow now) ?ps
      = Inr (tbl_properties db3)" by simp
    from insertPropertiesFrom_audit [OF Inr] have a3: "tbl_audit_logs db3 = []" by simp
    from assms Inr obtain e where
      "insertAuditLogsFrom now (''table_type'' # auditColumns) imported ?as db3 = Inl e"
      by (auto simp: importCombinedData_def Let_def split: sum.splits)
    with assms(1) Inr have "snd (importCombinedData now db imported) = db3"
      by (simp add: importCombinedData_def Let_def)
    with p3 a3 show ?thesis by simp
  qed
qed


text \<open>
  Claim C5, as amended. The import leaves both tables as they were when it fails before
  any table is cleared: when the store is not initialised, or when the buffer cannot be
  read as a columnar file. A failure of a later insert statement (a missing column, a
  failed conversion, a NULL in a \<^verbatim>\<open>NOT NULL\<close> column, a repeated primary key) is not undone:
  after a failed combined import the audit-log table is empty and the property table is
  empty or holds the imported properties; after a failed legacy import the property table
  is empty and the audit-log table is unchanged.
\<close>

theorem snapshot_import_failure:
  "((blob = None \<or> \<not> connected db) \<longrightarrow>
      fst (importFromParquet now db blob) \<noteq> None \<and> snd (importFromParquet now db blob) = db)
   \<and> (connected db \<and> blob = Some imported \<and> fst (importFromParquet now db blob) \<noteq> None \<longrightarrow>
        (''table_type'' \<in> set (columnNames imported) \<longrightarrow>
           tbl_audit_logs (snd (importFromParquet now db blob)) = []
           \<and> (tbl_properties (snd (importFromParquet now db blob)) = []
              \<or> selectAll (selectPropertyRow now)
                   (filter (\<lambda>r. i_table_type r = Some (js ''properties''))
                      (importedRows imported))
                 = Inr (tbl_properties (snd (importFromParquet now db blob)))))
        \<and> (''table_type'' \<notin> set (columnNames imported) \<longrightarrow>
             tbl_properties (snd (importFromParquet now db blob)) = []
             \<and> tbl_audit_logs (snd (importFromParquet now db blob)) = tbl_audit_logs db))"
proof (intro conjI impI)
  assume "blob = None \<or> \<not> connected db"
  then show "fst (importFromParquet now db blob) \<noteq> None"
    and "snd (importFromParquet now db blob) = db"
    by (auto simp: importFromParquet_def)
next
  assume a: "connected db \<and> blob = Some imported \<and> fst (importFromParquet now db blob) \<noteq> None"
    and c: "''table_type'' \<in> set (columnNames imported)"
  then have eq: "importFromParquet now db blob = importCombinedData now db imported"
    by (simp add: importFromParquet_def)
  with a importCombinedData_failed [of db now imported]
  show "tbl_audit_logs (snd (importFromParquet now db blob)) = []"
    and "tbl_properties (snd (importFromParquet now db blob)) = []
              \<or> selectAll (selectPropertyRow now)
                   (filter (\<lambda>r. i_table_type r = Some (js ''properties''))
                      (importedRows imported))
                 = Inr (tbl_properties (snd (importFromParquet now db blob)))"
    by simp_all
next
  assume a: "connected db \<and> blob = Some imported \<and> fst (importFromParquet now db blob) \<noteq> None"
    and c: "''table_type'' \<notin> set (columnNames imported)"
  then have eq: "importFromParquet now db blob = importLegacyProperties now db imported"
    by (simp add: importFromParquet_def)
  with a importLegacyProperties_failed [of db now imported]
    importLegacyProperties_audit [of now db imported]
  show "tbl_properties (snd (importFromParquet now db blob)) = []"
    and "tbl_audit_logs (snd (importFromParquet now db blob)) = tbl_audit_logs db"
    by simp_all
qed



text \<open>
  The claim as stated fails: a combined snapshot one of whose property rows has no key is
  rejected by the insert into the property table, after both tables have been cleared.
\<close>

theorem snapshot_import_failure_counterexample:
  "importFromParquet exampleNow exampleStore (Some exampleInvalidSnapshot)
     = (Some ConstraintError, \<lparr>connected = True, tbl_properties = [], tbl_audit_logs = []\<rparr>)
   \<and> tbl_properties exampleStore = [examplePropertyRow]
   \<and> tbl_audit_logs exampleStore = [exampleAuditRow]"
proof -
  have "selectPropertyRow exampleNow
          (exampleImportedProperty\<lparr>i_table_type := Some (js ''properties''), i_key := None\<rparr>)
        = Inl ConstraintError"
    by (simp add: selectPropertyRow_def exampleImportedProperty_def blankRow_def)
  then show ?thesis
    by (simp add: importFromParquet_def importCombinedData_def insertPropertiesFrom_def
        exampleInvalidSnapshot_def exampleStore_def propertyColumns_def auditColumns_def
        exampleImportedAudit_def blankRow_def Let_def)
qed

theorem snapshot_import_failure_witness:
  "fst (importFromParquet exampleNow exampleStore None) \<noteq> None
   \<and> snd (importFromParquet exampleNow exampleStore None) = exampleStore
   \<and> connected exampleStore
   \<and> fst (importFromParquet exampleNow exampleStore (Some exampleInvalidSnapshot)) \<noteq> None
   \<and> tbl_audit_logs (snd (importFromParquet exampleNow exampleStore
                             (Some exampleInvalidSnapshot))) = []"
proof -
  have c: "connected exampleStore" by (simp add: exampleStore_def)
  have f: "fst (importFromParquet exampleNow exampleStore (Some exampleInvalidSnapshot)) \<noteq> None"
    by code_simp
  have t: "''table_type'' \<in> set (columnNames exampleInvalidSnapshot)"
    by (simp add: exampleInvalidSnapshot_def)
  from snapshot_import_failure [of None exampleStore exampleNow exampleInvalidSnapshot]
  have 1: "fst (importFromParquet exampleNow exampleStore None) \<noteq> None"
    and 2: "snd (importFromParquet exampleNow exampleStore None) = exampleStore"
    by simp_all
  from snapshot_import_failure
         [of "Some exampleInvalidSnapshot" exampleStore exampleNow exampleInvalidSnapshot] c f t
  have 3: "tbl_audit_logs (snd (importFromParquet exampleNow exampleStore
                             (Some exampleInvalidSnapshot))) = []"
    by simp
  from 1 2 3 c f show ?thesis by simp
qed

section \<open>The round trip through the text format\<close>

lemma split_nl_no_lf: "0x0A \<notin> set l \<Longrightarrow> split_nl l = [l]"
  by (induction l) auto

lemma split_nl_append: "0x0A \<notin> set l \<Longrightarrow> split_nl (l @ 0x0A # rest) = l # split_nl rest"
  by (induction l) auto

lemma split_join_nl:
  "lines \<noteq> [] \<Longrightarrow> \<forall>l \<in> set lines. 0x0A \<notin> set l \<Longrightarrow> split_nl (join_nl lines) = lines"
proof (induction lines rule: join_nl.induct)
  case 1
  then show ?case by simp
next
  case (2 l)
  then show ?case by (simp add: split_nl_no_lf)
next
  case (3 l l' ls)
  then show ?case by (simp add: split_nl_append)
qed

lemma trim_fixed:
  "s \<noteq> [] \<Longrightarrow> \<not> is_ws (hd s) \<Longrightarrow> \<not> is_ws (last s) \<Longrightarrow> trim s = s"
proof -
  assume s: "s \<noteq> []" and h: "\<not> is_ws (hd s)" and l: "\<not> is_ws (last s)"
  from s h have 1: "dropWhile is_ws s = s" by (cases s) auto
  from s l have 2: "dropWhile is_ws (rev s) = rev s" by (cases "rev s") (auto simp: last_rev hd_rev)
  show ?thesis by (simp add: trim_def 1 2)
qed

lemma dropWhile_id_iff: "dropWhile P xs = xs \<longleftrightarrow> xs = [] \<or> \<not> P (hd xs)"
proof (cases xs)
  case Nil
  then show ?thesis by simp
next
  case (Cons x ys)
  have "length (dropWhile P ys) \<le> length ys" by (rule length_dropWhile_le)
  then have "dropWhile P ys \<noteq> x # ys" by auto
  with Cons show ?thesis by auto
qed

lemma dropWhile_same_length: "length (dropWhile P xs) = length xs \<Longrightarrow> dropWhile P xs = xs"
proof (cases xs)
  case Nil
  then show ?thesis by simp
next
  case (Cons x ys)
  assume l: "length (dropWhile P xs) = length xs"
  have "length (dropWhile P ys) \<le> length ys" by (rule length_dropWhile_le)
  with l Cons show ?thesis by (auto split: if_splits)
qed

lemma trim_fixed_ends:
  assumes "trim s = s" "s \<noteq> []"
  shows "\<not> is_ws (hd s) \<and> \<not> is_ws (last s)"
proof -
  let ?d = "dropWhile is_ws s"
  have "length s = length (dropWhile is_ws (rev ?d))"
    using assms(1) by (metis length_rev trim_def)
  also have "\<dots> \<le> length ?d" using length_dropWhile_le [of is_ws "rev ?d"] by simp
  finally have "length ?d = length s" using length_dropWhile_le [of is_ws s] by simp
  then have d: "?d = s" by (rule dropWhile_same_length)
  with assms(2) have h: "\<not> is_ws (hd s)" by (simp add: dropWhile_id_iff)
  from assms(1) d have "rev (dropWhile is_ws (rev s)) = s" by (simp add: trim_def)
  then have "dropWhile is_ws (rev s) = rev s" by (metis rev_rev_ident)
  with assms(2) have "\<not> is_ws (hd (rev s))" by (simp add: dropWhile_id_iff)
  with assms(2) have "\<not> is_ws (last s)" by (simp add: hd_rev)
  with h show ?thesis by simp
qed


lemma lookupDescription_nearest:
  "lookupDescription lines i =
     (case nearestNonBlankBefore lines i of
        None \<Rightarrow> []
      | Some c \<Rightarrow> if isCommentStart (trim (lines ! c)) then trim (drop 1 (trim (lines ! c)))
                  else [])"
  unfolding lookupDescription_attached attachedDescription_def
  by (auto simp: isCommentLine_def split: option.splits
      dest!: nearest_blank_between dest: blank_not_property)

lemma nearestNonBlankBefore_Suc:
  "nearestNonBlankBefore lines (Suc i) =
     (if trim (lines ! i) \<noteq> [] then Some i else nearestNonBlankBefore lines i)"
  by (simp add: nearestNonBlankBefore_def)

lemma lookupDescription_descriptionFrom:
  "i \<le> length lines \<Longrightarrow> lookupDescription lines i = descriptionFrom (rev (take i lines))"
proof (induction i)
  case 0
  show ?case by (simp add: lookupDescription_nearest nearestNonBlankBefore_def)
next
  case (Suc i)
  then have i: "i < length lines" by simp
  with Suc have IH: "lookupDescription lines i = descriptionFrom (rev (take i lines))" by simp
  show ?case
    using IH i
    by (simp add: lookupDescription_nearest nearestNonBlankBefore_Suc take_Suc_conv_app_nth)
qed

lemma parseLine_tripleOfLine:
  "i < length lines \<Longrightarrow>
   map_option parsedTriple (parseLine lines i) = tripleOfLine (rev (take i lines)) (lines ! i)"
  by (simp add: parseLine_def tripleOfLine_def Let_def parsedTriple_def
      lookupDescription_descriptionFrom split: option.splits)

lemma parse_from:
  "i \<le> length lines \<Longrightarrow>
   map parsedTriple (List.map_filter (parseLine lines) [i..<length lines])
     = triplesFrom (rev (take i lines)) (drop i lines)"
proof (induction "length lines - i" arbitrary: i)
  case 0
  then show ?case by simp
next
  case (Suc n)
  then have i: "i < length lines" by simp
  have u: "[i..<length lines] = i # [Suc i..<length lines]" using i by (simp add: upt_conv_Cons)
  have d: "drop i lines = lines ! i # drop (Suc i) lines" using i by (simp add: Cons_nth_drop_Suc)
  have t: "rev (take (Suc i) lines) = lines ! i # rev (take i lines)"
    using i by (simp add: take_Suc_conv_app_nth)
  from Suc(2) i have "n = length lines - Suc i" by simp
  from Suc(1) [OF this] i
  have IH: "map parsedTriple (List.map_filter (parseLine lines) [Suc i..<length lines])
     = triplesFrom (lines ! i # rev (take i lines)) (drop (Suc i) lines)"
    by (simp add: t)
  show ?case
    unfolding u d using IH
    by (cases "parseLine lines i") (auto simp: parseLine_tripleOfLine [OF i, symmetric])
qed

lemma parse_triples:
  "map parsedTriple (parsePropertiesFileWithDescriptions content)
     = triplesFrom [] (split_nl content)"
  using parse_from [of 0 "split_nl content"]
  by (simp add: parsePropertiesFileWithDescriptions_def Let_def)


lemma js_eq: "js ''='' = [0x3D]" "js ''# '' = [0x23, 0x20]"
  by simp_all

lemma not_ws_sep: "\<not> is_ws 0x3D" "\<not> is_ws 0x23" "is_ws 0x20"
  by (simp_all add: is_ws_def)

lemma searchSeparator_append:
  "\<forall>c \<in> set k. c \<noteq> 0x3D \<and> c \<noteq> 0x3A \<Longrightarrow> searchSeparator (k @ 0x3D # v) = Some (length k)"
  by (induction k) auto

lemma startsWith_append: "k \<noteq> [] \<Longrightarrow> startsWith (k @ s) c = startsWith k c"
  by (cases k) auto

lemma representable_line:
  assumes "representable p"
  shows "trim (p_key p @ 0x3D # p_value p) = p_key p @ 0x3D # p_value p"
    and "\<not> isCommentStart (p_key p @ 0x3D # p_value p)"
    and "searchSeparator (p_key p @ 0x3D # p_value p) = Some (length (p_key p))"
proof -
  from assms have k: "p_key p \<noteq> []" "trim (p_key p) = p_key p"
    and v: "trim (p_value p) = p_value p"
    and c: "\<not> isCommentStart (p_key p)"
    and s: "\<forall>c \<in> set (p_key p). c \<noteq> 0x3D \<and> c \<noteq> 0x3A"
    by (simp_all add: representable_def)
  from trim_fixed_ends [OF k(2) k(1)] have h: "\<not> is_ws (hd (p_key p))" by simp
  have l: "\<not> is_ws (last (p_key p @ 0x3D # p_value p))"
  proof (cases "p_value p = []")
    case True
    then show ?thesis by (simp add: not_ws_sep)
  next
    case False
    with trim_fixed_ends [OF v] show ?thesis by simp
  qed
  show "trim (p_key p @ 0x3D # p_value p) = p_key p @ 0x3D # p_value p"
    using h l k(1) by (intro trim_fixed) (simp_all add: hd_append)
  show "\<not> isCommentStart (p_key p @ 0x3D # p_value p)"
    using c k(1) by (simp add: startsWith_append)
  show "searchSeparator (p_key p @ 0x3D # p_value p) = Some (length (p_key p))"
    using s by (rule searchSeparator_append)
qed

lemma tripleOfLine_property:
  assumes "representable p"
  shows "tripleOfLine seen (p_key p @ js ''='' @ p_value p)
           = Some (p_key p, p_value p, descriptionFrom seen)"
proof -
  from assms have k: "p_key p \<noteq> []" "trim (p_key p) = p_key p"
    and v: "trim (p_value p) = p_value p"
    by (simp_all add: representable_def)
  show ?thesis
    unfolding tripleOfLine_def js_eq
    using representable_line [OF assms] k v by (simp add: Let_def)
qed

lemma descriptionFrom_property:
  assumes "representable p"
  shows "descriptionFrom ((p_key p @ js ''='' @ p_value p) # seen) = []"
  unfolding js_eq using representable_line [OF assms] by simp

lemma trim_ws_Cons: "is_ws c \<Longrightarrow> trim (c # s) = trim s"
  by (simp add: trim_def)

lemma comment_line:
  assumes "d \<noteq> []" "trim d = d"
  shows "trim (js ''# '' @ d) = js ''# '' @ d"
    and "tripleOfLine seen (js ''# '' @ d) = None"
    and "descriptionFrom ((js ''# '' @ d) # seen) = d"
proof -
  from trim_fixed_ends [OF assms(2) assms(1)] have l: "\<not> is_ws (last d)" by simp
  show t: "trim (js ''# '' @ d) = js ''# '' @ d"
    unfolding js_eq using l assms(1) by (intro trim_fixed) (simp_all add: not_ws_sep)
  show "tripleOfLine seen (js ''# '' @ d) = None"
    unfolding tripleOfLine_def t by (simp add: js_eq)
  have "trim (drop 1 (js ''# '' @ d)) = d"
    using assms(2) by (simp add: js_eq trim_ws_Cons not_ws_sep)
  then show "descriptionFrom ((js ''# '' @ d) # seen) = d"
    unfolding descriptionFrom.simps t by (simp add: js_eq)
qed

lemma trim_Nil: "trim [] = []"
  by (simp add: trim_def)

lemma blank_line:
  "tripleOfLine seen [] = None" "descriptionFrom ([] # seen) = descriptionFrom seen"
  by (simp_all add: tripleOfLine_def trim_Nil)

lemma triplesFrom_emit:
  assumes "\<forall>p \<in> set ps. representable p"
  shows "triplesFrom seen (emitProperties lastFileOrder ps)
           = (case ps of
                [] \<Rightarrow> []
              | p # rest \<Rightarrow>
                  (p_key p, p_value p,
                   if truthyString (p_description p) then orElse (p_description p) []
                   else descriptionFrom seen)
                  # map propertyTriple rest)"
  using assms
proof (induction ps arbitrary: seen lastFileOrder)
  case Nil
  show ?case by simp
next
  case (Cons p rest)
  then have r: "representable p" and rs: "\<forall>q \<in> set rest. representable q" by simp_all
  let ?kv = "p_key p @ js ''='' @ p_value p"
  let ?d = "orElse (p_description p) []"
  let ?switch = "p_fileOrder p \<noteq> None \<and> the (p_fileOrder p) \<noteq> lastFileOrder"
  let ?sep = "if ?switch \<and> lastFileOrder \<noteq> - 1 then [[]] else []"
  let ?cmt = "if truthyString (p_description p) then [js ''# '' @ ?d] else []"
  let ?next = "if ?switch then the (p_fileOrder p) else lastFileOrder"
  have emit: "emitProperties lastFileOrder (p # rest)
                = ?sep @ ?cmt @ [?kv, []] @ emitProperties ?next rest"
    by (simp add: Let_def)
  define seen1 where "seen1 = rev ?sep @ seen"
  have s1: "triplesFrom seen (?sep @ xs) = triplesFrom seen1 xs" for xs
    by (simp add: seen1_def blank_line)
  have d1: "descriptionFrom seen1 = descriptionFrom seen"
    by (simp add: seen1_def trim_Nil)
  define seen2 where "seen2 = rev ?cmt @ seen1"
  from r have dt: "trim ?d = ?d" by (simp add: representable_def)
  have s2: "triplesFrom seen1 (?cmt @ xs) = triplesFrom seen2 xs" for xs
  proof (cases "truthyString (p_description p)")
    case True
    then have "?d \<noteq> []" by (simp add: truthyString_def)
    from comment_line(2) [OF this dt, of seen1] True show ?thesis
      by (simp add: seen2_def)
  next
    case False
    then show ?thesis by (simp add: seen2_def)
  qed
  have d2: "descriptionFrom seen2
              = (if truthyString (p_description p) then ?d else descriptionFrom seen)"
  proof (cases "truthyString (p_description p)")
    case True
    then have "?d \<noteq> []" by (simp add: truthyString_def)
    from comment_line(3) [OF this dt, of seen1] True show ?thesis
      by (simp add: seen2_def)
  next
    case False
    then show ?thesis by (simp add: seen2_def d1)
  qed
  have s3: "triplesFrom seen2 ([?kv, []] @ xs)
              = (p_key p, p_value p, descriptionFrom seen2) # triplesFrom ([] # ?kv # seen2) xs"
    for xs
    by (simp add: tripleOfLine_property [OF r, simplified] blank_line)
  have d3: "descriptionFrom ([] # ?kv # seen2) = []"
    by (simp only: blank_line descriptionFrom_property [OF r])
  have tail: "triplesFrom ([] # ?kv # seen2) (emitProperties ?next rest) = map propertyTriple rest"
    unfolding Cons.IH [OF rs] d3
    by (cases rest) (auto simp: propertyTriple_def truthyString_def)
  show ?case
    unfolding emit s1 s2 s3 tail d2 by simp
qed


lemma trim_keeps_first:
  assumes "\<not> is_ws c"
  shows "\<exists>r. trim (c # s) = c # r"
proof -
  have 1: "dropWhile is_ws (c # s) = c # s" using assms by simp
  have "dropWhile is_ws (rev s @ [c]) = dropWhile is_ws (rev s) @ [c]"
    using assms by (rule dropWhile_append3)
  then obtain zs where z: "dropWhile is_ws (rev s @ [c]) = zs @ [c]" by auto
  have "trim (c # s) = rev (dropWhile is_ws (rev (c # s)))" by (simp only: trim_def 1)
  also have "\<dots> = rev (dropWhile is_ws (rev s @ [c]))" by simp
  also have "\<dots> = c # rev zs" unfolding z by simp
  finally show ?thesis by blast
qed

lemma comment_start_line:
  "tripleOfLine seen (0x23 # s) = None"
proof -
  from trim_keeps_first [of "0x23" s] obtain r where "trim (0x23 # s) = 0x23 # r"
    by (auto simp: not_ws_sep)
  then show ?thesis by (simp add: tripleOfLine_def)
qed

lemma header_description:
  "descriptionFrom ([] # js ''# Environment Properties'' # seen) = js ''Environment Properties''"
proof -
  have 1: "trim (js ''# Environment Properties'') = js ''# Environment Properties''"
    by code_simp
  have 2: "trim (drop 1 (js ''# Environment Properties'')) = js ''Environment Properties''"
    by code_simp
  have 3: "isCommentStart (js ''# Environment Properties'')" by simp
  have 4: "js ''# Environment Properties'' \<noteq> []" by simp
  have "descriptionFrom (js ''# Environment Properties'' # seen)
          = trim (drop 1 (js ''# Environment Properties''))"
    using 3 4 by (simp only: descriptionFrom.simps 1 if_True if_False)
  then show ?thesis by (simp only: blank_line 2)
qed

lemma triplesFrom_header:
  "triplesFrom [] ([js ''# Generated on '' @ now, js ''# Environment Properties'', []] @ xs)
     = triplesFrom [[], js ''# Environment Properties'', js ''# Generated on '' @ now] xs"
proof -
  have g: "js ''# Generated on '' @ now = 0x23 # (js '' Generated on '' @ now)" by simp
  have e: "js ''# Environment Properties'' = 0x23 # js '' Environment Properties''" by simp
  have 1: "tripleOfLine [] (js ''# Generated on '' @ now) = None"
    unfolding g by (rule comment_start_line)
  have 2: "tripleOfLine [js ''# Generated on '' @ now] (js ''# Environment Properties'') = None"
    unfolding e by (rule comment_start_line)
  show ?thesis
    by (simp only: append_Cons append_Nil triplesFrom.simps 1 2 blank_line option.case)
qed

lemma emitProperties_no_lf:
  "\<forall>p \<in> set ps. representable p \<Longrightarrow> \<forall>l \<in> set (emitProperties lastFileOrder ps). 0x0A \<notin> set l"
proof (induction ps arbitrary: lastFileOrder)
  case Nil
  show ?case by simp
next
  case (Cons p rest)
  then have r: "representable p" and rs: "\<forall>q \<in> set rest. representable q" by simp_all
  from r have k: "0x0A \<notin> set (p_key p)" and v: "0x0A \<notin> set (p_value p)"
    and d: "0x0A \<notin> set (orElse (p_description p) [])"
    by (auto simp: representable_def)
  from Cons.IH [OF rs] k v d show ?case
    by (auto simp: Let_def js_eq)
qed

lemma generated_lines:
  assumes "\<forall>p \<in> set (sortFn properties). representable p" "0x0A \<notin> set now"
  shows "split_nl (generatePropertiesFileContent sortFn now properties)
           = [js ''# Generated on '' @ now, js ''# Environment Properties'', []]
             @ emitProperties (- 1) (sortFn properties)"
proof -
  have h: "0x0A \<notin> set (js ''# Generated on '' @ now)" "0x0A \<notin> set (js ''# Environment Properties'')"
    using assms(2) by simp_all
  show ?thesis
    unfolding generatePropertiesFileContent_def
    using emitProperties_no_lf [where ps = "sortFn properties" and lastFileOrder = "- 1"]
      assms(1) h
    by (intro split_join_nl) (simp_all del: set_map)
qed

lemma round_trip_list:
  assumes "\<forall>p \<in> set (sortFn properties). representable p" "firstDescribed (sortFn properties)"
    "0x0A \<notin> set now"
  shows "map parsedTriple (parsePropertiesFileWithDescriptions
                             (generatePropertiesFileContent sortFn now properties))
           = map propertyTriple (sortFn properties)"
proof -
  have "map parsedTriple (parsePropertiesFileWithDescriptions
                             (generatePropertiesFileContent sortFn now properties))
        = triplesFrom [[], js ''# Environment Properties'', js ''# Generated on '' @ now]
            (emitProperties (- 1) (sortFn properties))"
    unfolding parse_triples
      generated_lines [where sortFn = sortFn and properties = properties, OF assms(1) assms(3)]
    by (rule triplesFrom_header)
  also have "\<dots> = map propertyTriple (sortFn properties)"
    unfolding triplesFrom_emit [where ps = "sortFn properties", OF assms(1)] header_description
    using assms(2)
    by (cases "sortFn properties") (simp_all add: firstDescribed_def propertyTriple_def)
  finally show ?thesis .
qed

text \<open>
  Claim C3, as amended. Let every property of the list be representable in the text
  format (a non-empty key without white space at its ends, without \<^verbatim>\<open>=\<close>, \<^verbatim>\<open>:\<close> or line feed
  and not starting with \<^verbatim>\<open>#\<close> or \<^verbatim>\<open>!\<close>; a value and a description without white space at
  their ends and without line feed), and let the property written first have a non-empty
  description. Then serializing the list and parsing the text back yields exactly the set
  of (key, value, description) triples of the list, an absent description counting as the
  empty one. The sort is any function that keeps the elements of the list, and the time
  stamp of the header contains no line feed.
\<close>

theorem serialize_parse_round_trip:
  assumes "set (sortFn properties) = set properties"
    and "\<forall>p \<in> set properties. representable p"
    and "firstDescribed (sortFn properties)"
    and "0x0A \<notin> set now"
  shows "set (map parsedTriple (parsePropertiesFileWithDescriptions
                                  (generatePropertiesFileContent sortFn now properties)))
           = set (map propertyTriple properties)"
proof -
  from assms(1,2) have r: "\<forall>p \<in> set (sortFn properties). representable p" by simp
  show ?thesis
    unfolding round_trip_list [where sortFn = sortFn and properties = properties,
        OF r assms(3,4)]
    using assms(1) by simp
qed

text \<open>
  The claim as stated fails. A property without description that is written first comes
  back with the second header line as its description; a key containing a separator comes
  back split at that separator; white space at the ends of a value is lost.
\<close>

theorem serialize_parse_round_trip_counterexample:
  "map parsedTriple (parsePropertiesFileWithDescriptions
                       (generatePropertiesFileContent id exampleNow [exampleBareProperty]))
     = [(js ''timeout'', js ''30'', js ''Environment Properties'')]
   \<and> map propertyTriple [exampleBareProperty] = [(js ''timeout'', js ''30'', [])]
   \<and> set (map parsedTriple (parsePropertiesFileWithDescriptions
                       (generatePropertiesFileContent id exampleNow [exampleBareProperty])))
      \<noteq> set (map propertyTriple [exampleBareProperty])
   \<and> map parsedTriple (parsePropertiesFileWithDescriptions
                       (generatePropertiesFileContent id exampleNow
                          [exampleProperty\<lparr>p_key := js ''a=b''\<rparr>]))
     = [(js ''a'', js ''b=jdbc:prod2'', js ''Database URL'')]
   \<and> map parsedTriple (parsePropertiesFileWithDescriptions
                       (generatePropertiesFileContent id exampleNow
                          [exampleProperty\<lparr>p_value := js '' x ''\<rparr>]))
     = [(js ''db.url'', js ''x'', js ''Database URL'')]"
proof -
  have 1: "map parsedTriple (parsePropertiesFileWithDescriptions
                       (generatePropertiesFileContent id exampleNow [exampleBareProperty]))
     = [(js ''timeout'', js ''30'', js ''Environment Properties'')]"
    by code_simp
  have 2: "map propertyTriple [exampleBareProperty] = [(js ''timeout'', js ''30'', [])]"
    by code_simp
  have 3: "map parsedTriple (parsePropertiesFileWithDescriptions
                       (generatePropertiesFileContent id exampleNow
                          [exampleProperty\<lparr>p_key := js ''a=b''\<rparr>]))
     = [(js ''a'', js ''b=jdbc:prod2'', js ''Database URL'')]"
    by code_simp
  have 4: "map parsedTriple (parsePropertiesFileWithDescriptions
                       (generatePropertiesFileContent id exampleNow
                          [exampleProperty\<lparr>p_value := js '' x ''\<rparr>]))
     = [(js ''db.url'', js ''x'', js ''Database URL'')]"
    by code_simp
  show ?thesis unfolding 1 2 3 4 by simp
qed

theorem serialize_parse_round_trip_witness:
  "set (map parsedTriple (parsePropertiesFileWithDescriptions
          (generatePropertiesFileContent id exampleNow [exampleProperty, exampleBareProperty])))
     = {(js ''db.url'', js ''jdbc:prod2'', js ''Database URL''), (js ''timeout'', js ''30'', [])}"
proof -
  have 1: "set (id [exampleProperty, exampleBareProperty]) = set [exampleProperty, exampleBareProperty]"
    by simp
  have 2: "\<forall>p \<in> set [exampleProperty, exampleBareProperty]. representable p"
    by code_simp
  have 3: "firstDescribed (id [exampleProperty, exampleBareProperty])"
    by code_simp
  have 4: "0x0A \<notin> set exampleNow" by code_simp
  have 5: "set (map propertyTriple [exampleProperty, exampleBareProperty])
       = {(js ''db.url'', js ''jdbc:prod2'', js ''Database URL''), (js ''timeout'', js ''30'', [])}"
    by (simp add: propertyTriple_def exampleProperty_def exampleBareProperty_def)
  from serialize_parse_round_trip
         [where sortFn = id and properties = "[exampleProperty, exampleBareProperty]"
            and now = exampleNow, OF 1 2 3 4] 5
  show ?thesis by simp
qed

end
